theory Spec2Isabelle
  imports Complex_Main "HOL-Library.Char_ord" "HOL-Library.List_Lexorder"
begin

section \<open>Data model\<close>

text \<open>
  A pandas \<open>float64\<close> cell. Finite values are carried as reals (rounding and overflow
  of finite arithmetic are not modelled); the three special values of IEEE 754 are
  explicit, since pandas uses \<open>NaN\<close> for a missing value and division by zero yields
  an infinity or \<open>NaN\<close> rather than raising.
\<close>

datatype float64 = Fin real | PInf | NInf | NaN

text \<open>The exceptions the modelled code can raise, with their messages.\<close>

datatype error = KeyError string | ValueError string | IndexError string | WorkerError string

text \<open>
  One record of a trajectory table after \<open>reset_index()\<close>: the two index levels
  (\<open>traj_id\<close>, \<open>DateTime\<close>) are ordinary columns, \<open>DateTime\<close> is a
  \<open>datetime64[ns]\<close> value (nanoseconds since the epoch), and \<open>feature\<close> holds the
  cell of every derived column by column name.
\<close>

record point =
  traj_id :: string
  DateTime :: int
  lat :: float64
  lon :: float64
  feature :: "string \<Rightarrow> float64"

text \<open>
  A \<open>NumPandasTraj\<close> table: the names of its derived columns, in column order, and
  its records in row order.
\<close>

record dataframe =
  columns :: "string list"
  rows :: "point list"

section \<open>Row-count partitioning\<close>

text \<open>
  \<open>df.reset_index().loc[i:j]\<close>: after \<open>reset_index()\<close> the row labels are the
  positions \<open>0 .. len(df) - 1\<close>, and a \<open>.loc\<close> slice includes both end labels.
\<close>

definition loc_slice :: "nat \<Rightarrow> nat \<Rightarrow> dataframe \<Rightarrow> dataframe" where
  "loc_slice i j df = df\<lparr>rows := take (Suc j - i) (drop i (rows df))\<rparr>"

text \<open>
  The loop shared verbatim by the four column constructors:
  \<^verbatim>\<open>
  for i in range(0, len(dataframe), 75001):
      chunks.append(dataframe.reset_index().loc[i: i + 75000])
  \<close>
  \<open>chunks_loop i df\<close> is the list appended from loop index \<open>i\<close> on.
\<close>

function chunks_loop :: "nat \<Rightarrow> dataframe \<Rightarrow> dataframe list" where
  "chunks_loop i df =
     (if i < length (rows df)
      then loc_slice i (i + 75000) df # chunks_loop (i + 75001) df
      else [])"
  by pat_completeness auto
termination
  by (relation "measure (\<lambda>(i, df). length (rows df) - i)") auto

declare chunks_loop.simps [simp del]

definition chunks :: "dataframe \<Rightarrow> dataframe list" where
  "chunks df = chunks_loop 0 df"

section \<open>Parallel execution and merge\<close>

text \<open>
  \<open>multiprocessing.Pool(processes)\<close> refuses a pool of fewer than one process with
  \<open>ValueError("Number of processes must be at least 1")\<close>.
\<close>

definition Pool :: "nat \<Rightarrow> error + nat" where
  "Pool processes =
     (if processes < 1 then Inl (ValueError ''Number of processes must be at least 1'')
      else Inr processes)"

text \<open>
  \<open>pool.map(f, xs)\<close> and \<open>pool.starmap\<close>: the results in the order of the inputs; a
  worker that raises makes the whole call raise.
\<close>

fun pool_map :: "('a \<Rightarrow> error + 'b) \<Rightarrow> 'a list \<Rightarrow> error + 'b list" where
  "pool_map f [] = Inr []"
| "pool_map f (x # xs) =
     (case f x of
        Inl e \<Rightarrow> Inl e
      | Inr y \<Rightarrow> (case pool_map f xs of Inl e \<Rightarrow> Inl e | Inr ys \<Rightarrow> Inr (y # ys)))"

text \<open>
  \<open>pd.concat(frames)\<close>: raises on an empty list; otherwise the rows of the frames in
  order, under the union of their columns in order of first appearance, a cell of a
  column its frame lacks being \<open>NaN\<close>.
\<close>

definition first_occurrences :: "string list \<Rightarrow> string list" where
  "first_occurrences xs = rev (remdups (rev xs))"

definition reindex :: "string list \<Rightarrow> point \<Rightarrow> point" where
  "reindex cs r = r\<lparr>feature := (\<lambda>c. if c \<in> set cs then feature r c else NaN)\<rparr>"

definition pd_concat :: "dataframe list \<Rightarrow> error + dataframe" where
  "pd_concat dfs =
     (if dfs = [] then Inl (ValueError ''No objects to concatenate'')
      else Inr \<lparr>columns = first_occurrences (concat (map columns dfs)),
                rows = concat (map (\<lambda>d. map (reindex (columns d)) (rows d)) dfs)\<rparr>)"

text \<open>
  The code this module imports from files that are not among the sources, the per-chunk
  workers of \<open>features.helper_functions.Helpers\<close> and the constructor
  \<open>core.TrajectoryDF.NumPandasTraj\<close>, is a parameter of each function that calls
  it: \<open>helper\<close> is the worker, \<open>NumPandasTraj\<close> the constructor. Either may raise.
\<close>

type_synonym worker = "dataframe \<Rightarrow> error + dataframe"

section \<open>Column constructors over row-count chunks\<close>

definition create_distance_between_consecutive_column ::
    "worker \<Rightarrow> worker \<Rightarrow> dataframe \<Rightarrow> error + dataframe" where
  "create_distance_between_consecutive_column helper NumPandasTraj df =
     (case Pool (length (chunks df)) of
        Inl e \<Rightarrow> Inl e
      | Inr multi_pool \<Rightarrow>
          (case pool_map helper (chunks df) of
             Inl e \<Rightarrow> Inl e
           | Inr result \<Rightarrow>
               (case pd_concat result of
                  Inl e \<Rightarrow> Inl e
                | Inr merged \<Rightarrow> NumPandasTraj merged)))"

definition create_distance_from_start_column ::
    "worker \<Rightarrow> worker \<Rightarrow> dataframe \<Rightarrow> error + dataframe" where
  "create_distance_from_start_column helper NumPandasTraj df =
     (case Pool (length (chunks df)) of
        Inl e \<Rightarrow> Inl e
      | Inr pool \<Rightarrow>
          (case pool_map helper (chunks df) of
             Inl e \<Rightarrow> Inl e
           | Inr answer \<Rightarrow>
               (case pd_concat answer of
                  Inl e \<Rightarrow> Inl e
                | Inr merged \<Rightarrow> NumPandasTraj merged)))"

definition create_point_within_range_column ::
    "(dataframe \<Rightarrow> float64 \<times> float64 \<Rightarrow> float64 \<Rightarrow> error + dataframe) \<Rightarrow> worker \<Rightarrow>
     dataframe \<Rightarrow> float64 \<times> float64 \<Rightarrow> float64 \<Rightarrow> error + dataframe" where
  "create_point_within_range_column helper NumPandasTraj df coordinates dist_range =
     (case Pool (length (chunks df)) of
        Inl e \<Rightarrow> Inl e
      | Inr pool \<Rightarrow>
          (case pool_map (\<lambda>part. helper part coordinates dist_range) (chunks df) of
             Inl e \<Rightarrow> Inl e
           | Inr result \<Rightarrow>
               (case pd_concat result of
                  Inl e \<Rightarrow> Inl e
                | Inr merged \<Rightarrow> NumPandasTraj merged)))"

definition create_distance_from_given_point_column ::
    "(dataframe \<Rightarrow> float64 \<times> float64 \<Rightarrow> error + dataframe) \<Rightarrow> worker \<Rightarrow>
     dataframe \<Rightarrow> float64 \<times> float64 \<Rightarrow> error + dataframe" where
  "create_distance_from_given_point_column helper NumPandasTraj df coordinates =
     (case Pool (length (chunks df)) of
        Inl e \<Rightarrow> Inl e
      | Inr pool \<Rightarrow>
          (case pool_map (\<lambda>part. helper part coordinates) (chunks df) of
             Inl e \<Rightarrow> Inl e
           | Inr answer \<Rightarrow>
               (case pd_concat answer of
                  Inl e \<Rightarrow> Inl e
                | Inr merged \<Rightarrow> NumPandasTraj merged)))"

section \<open>Speed, acceleration and jerk\<close>

text \<open>
  Subtraction and division of \<open>float64\<close> cells as numpy performs them on the special
  values. A zero divisor here is always the \<open>+0.0\<close> that a whole number of seconds
  converts to.
\<close>

fun fsub :: "float64 \<Rightarrow> float64 \<Rightarrow> float64" where
  "fsub NaN _ = NaN"
| "fsub _ NaN = NaN"
| "fsub (Fin x) (Fin y) = Fin (x - y)"
| "fsub (Fin x) PInf = NInf"
| "fsub (Fin x) NInf = PInf"
| "fsub PInf PInf = NaN"
| "fsub PInf _ = PInf"
| "fsub NInf NInf = NaN"
| "fsub NInf _ = NInf"

fun fdiv :: "float64 \<Rightarrow> float64 \<Rightarrow> float64" where
  "fdiv NaN _ = NaN"
| "fdiv _ NaN = NaN"
| "fdiv (Fin x) (Fin y) =
     (if y \<noteq> 0 then Fin (x / y)
      else if 0 < x then PInf else if x < 0 then NInf else NaN)"
| "fdiv (Fin x) _ = Fin 0"
| "fdiv PInf (Fin y) = (if 0 \<le> y then PInf else NInf)"
| "fdiv NInf (Fin y) = (if 0 \<le> y then NInf else PInf)"
| "fdiv _ _ = NaN"

definition is_finite :: "float64 \<Rightarrow> bool" where
  "is_finite v = (case v of Fin x \<Rightarrow> True | _ \<Rightarrow> False)"

text \<open>
  \<open>df.reset_index()[name]\<close> for a derived column: \<open>KeyError\<close> when the table has no
  such column.
\<close>

definition get_column :: "dataframe \<Rightarrow> string \<Rightarrow> error + float64 list" where
  "get_column df name =
     (if name \<in> set (columns df) then Inr (map (\<lambda>r. feature r name) (rows df))
      else Inl (KeyError name))"

text \<open>
  \<open>df[name] = values.to_numpy()\<close>: by position; a new column goes last; a value
  array of the wrong length is a \<open>ValueError\<close>.
\<close>

definition set_column :: "dataframe \<Rightarrow> string \<Rightarrow> float64 list \<Rightarrow> error + dataframe" where
  "set_column df name vs =
     (if length vs \<noteq> length (rows df)
      then Inl (ValueError ''Length of values does not match length of index'')
      else Inr \<lparr>columns = (if name \<in> set (columns df) then columns df
                            else columns df @ [name]),
                rows = map2 (\<lambda>r v. r\<lparr>feature := (feature r)(name := v)\<rparr>) (rows df) vs\<rparr>)"

text \<open>
  \<open>Series.dt.seconds\<close> of a timedelta given in nanoseconds: the seconds field of its
  (days, seconds, microseconds, nanoseconds) decomposition, with days carrying the sign.
\<close>

definition dt_seconds :: "int \<Rightarrow> int" where
  "dt_seconds delta = (delta div 1000000000) mod 86400"

text \<open>
  \<open>df.reset_index()[const.DateTime].diff().dt.seconds\<close>: the first entry is missing
  (\<open>NaT\<close>, read as \<open>NaN\<close>), every other is taken against the row just before it.
\<close>

definition time_deltas :: "dataframe \<Rightarrow> float64 list" where
  "time_deltas df =
     (case map DateTime (rows df) of
        [] \<Rightarrow> []
      | t # ts \<Rightarrow> NaN # map2 (\<lambda>prev cur. Fin (of_int (dt_seconds (cur - prev)))) (t # ts) ts)"

text \<open>\<open>Series.diff()\<close> of a float column.\<close>

definition series_diff :: "float64 list \<Rightarrow> float64 list" where
  "series_diff xs =
     (case xs of [] \<Rightarrow> [] | x # rest \<Rightarrow> NaN # map2 (\<lambda>prev cur. fsub cur prev) (x # rest) rest)"

text \<open>Elementwise division of two series over the same row labels.\<close>

definition series_div :: "float64 list \<Rightarrow> float64 list \<Rightarrow> float64 list" where
  "series_div xs ys = map2 fdiv xs ys"

text \<open>
  The three statements that form both the \<open>try\<close> block and the tail of the
  \<open>except KeyError\<close> block of each of the three functions.
\<close>

definition speed_block :: "dataframe \<Rightarrow> error + dataframe" where
  "speed_block df =
     (case get_column df ''Distance_prev_to_curr'' of
        Inl e \<Rightarrow> Inl e
      | Inr distances \<Rightarrow>
          set_column df ''Speed_prev_to_curr'' (series_div distances (time_deltas df)))"

definition acceleration_block :: "dataframe \<Rightarrow> error + dataframe" where
  "acceleration_block df =
     (case get_column df ''Speed_prev_to_curr'' of
        Inl e \<Rightarrow> Inl e
      | Inr speeds \<Rightarrow>
          set_column df ''Acceleration_prev_to_curr''
            (series_div (series_diff speeds) (time_deltas df)))"

definition jerk_block :: "dataframe \<Rightarrow> error + dataframe" where
  "jerk_block df =
     (case get_column df ''Acceleration_prev_to_curr'' of
        Inl e \<Rightarrow> Inl e
      | Inr accelerations \<Rightarrow>
          set_column df ''jerk_prev_to_curr''
            (series_div (series_diff accelerations) (time_deltas df)))"

text \<open>
  \<open>try: block  except KeyError: df = prerequisite(df); block\<close>. Only a \<open>KeyError\<close>
  of the \<open>try\<close> block is caught; whatever the handler raises propagates.
\<close>

definition create_speed_from_prev_column ::
    "worker \<Rightarrow> worker \<Rightarrow> dataframe \<Rightarrow> error + dataframe" where
  "create_speed_from_prev_column helper NumPandasTraj df =
     (case speed_block df of
        Inr out \<Rightarrow> Inr out
      | Inl (KeyError k) \<Rightarrow>
          (case create_distance_between_consecutive_column helper NumPandasTraj df of
             Inl e \<Rightarrow> Inl e
           | Inr df' \<Rightarrow> speed_block df')
      | Inl e \<Rightarrow> Inl e)"

definition create_acceleration_from_prev_column ::
    "worker \<Rightarrow> worker \<Rightarrow> dataframe \<Rightarrow> error + dataframe" where
  "create_acceleration_from_prev_column helper NumPandasTraj df =
     (case acceleration_block df of
        Inr out \<Rightarrow> Inr out
      | Inl (KeyError k) \<Rightarrow>
          (case create_speed_from_prev_column helper NumPandasTraj df of
             Inl e \<Rightarrow> Inl e
           | Inr df' \<Rightarrow> acceleration_block df')
      | Inl e \<Rightarrow> Inl e)"

definition create_jerk_from_prev_column ::
    "worker \<Rightarrow> worker \<Rightarrow> dataframe \<Rightarrow> error + dataframe" where
  "create_jerk_from_prev_column helper NumPandasTraj df =
     (case jerk_block df of
        Inr out \<Rightarrow> Inr out
      | Inl (KeyError k) \<Rightarrow>
          (case create_acceleration_from_prev_column helper NumPandasTraj df of
             Inl e \<Rightarrow> Inl e
           | Inr df' \<Rightarrow> jerk_block df')
      | Inl e \<Rightarrow> Inl e)"

section \<open>Bounding box and end points\<close>

text \<open>
  The order of \<open>float64\<close> values; every comparison with \<open>NaN\<close> is false.
\<close>

fun fle :: "float64 \<Rightarrow> float64 \<Rightarrow> bool" where
  "fle NaN _ = False"
| "fle _ NaN = False"
| "fle NInf _ = True"
| "fle _ PInf = True"
| "fle (Fin x) (Fin y) = (x \<le> y)"
| "fle _ _ = False"

text \<open>
  \<open>Series.min()\<close> and \<open>Series.max()\<close> skip missing values (\<open>skipna=True\<close>) and
  give \<open>NaN\<close> when nothing is left.
\<close>

definition present :: "float64 list \<Rightarrow> float64 list" where
  "present xs = filter (\<lambda>v. v \<noteq> NaN) xs"




text \<open>
  \<open>Series.min()\<close> and \<open>Series.max()\<close> of a timestamp column: \<open>NaT\<close> (here
  \<open>None\<close>) on an empty column. A comparison with \<open>NaT\<close> is false.
\<close>

definition time_min :: "int list \<Rightarrow> int option" where
  "time_min ts = (case ts of [] \<Rightarrow> None | t # rest \<Rightarrow> Some (foldl min t rest))"

definition time_max :: "int list \<Rightarrow> int option" where
  "time_max ts = (case ts of [] \<Rightarrow> None | t # rest \<Rightarrow> Some (foldl max t rest))"

text \<open>
  What \<open>get_start_location\<close> and \<open>get_end_location\<close> return: a
  \<open>(latitude, longitude)\<close> tuple or a message string.
\<close>

datatype location = Coordinates float64 float64 | Message string

text \<open>
  \<open>start_loc[const.LAT][0], start_loc[const.LONG][0]\<close> after \<open>reset_index()\<close>:
  the first row, and \<open>KeyError: 0\<close> when there is none.
\<close>

definition first_coordinates :: "point list \<Rightarrow> error + location" where
  "first_coordinates start_loc =
     (case start_loc of
        [] \<Rightarrow> Inl (KeyError ''0'')
      | r # _ \<Rightarrow> Inr (Coordinates (lat r) (lon r)))"

definition get_start_location :: "dataframe \<Rightarrow> string option \<Rightarrow> error + location" where
  "get_start_location df tid =
     (case tid of
        None \<Rightarrow>
          first_coordinates
            (filter (\<lambda>r. Some (DateTime r) = time_min (map DateTime (rows df))) (rows df))
      | Some t \<Rightarrow>
          (let filt = filter (\<lambda>r. traj_id r = t) (rows df);
               start_loc = filter (\<lambda>r. Some (DateTime r) = time_min (map DateTime filt)) filt
           in if length start_loc = 0
              then Inr (Message (''Trajectory ID: '' @ t @
                     '' does not exist in the dataset. Please try again!''))
              else first_coordinates start_loc))"

definition get_end_location :: "dataframe \<Rightarrow> string option \<Rightarrow> error + location" where
  "get_end_location df tid =
     (case tid of
        None \<Rightarrow>
          first_coordinates
            (filter (\<lambda>r. Some (DateTime r) = time_max (map DateTime (rows df))) (rows df))
      | Some t \<Rightarrow>
          (let filt = filter (\<lambda>r. traj_id r = t) (rows df);
               start_loc = filter (\<lambda>r. Some (DateTime r) = time_max (map DateTime filt)) filt
           in if length start_loc = 0
              then Inr (Message (''Trajectory ID: '' @ t @
                     '' does not exist in the dataset. Please try again!''))
              else first_coordinates start_loc))"

section \<open>Pivoting the statistics table\<close>

text \<open>
  A cell of the statistics table: a number, or a string such as a species name.
\<close>

datatype cell = Num float64 | Txt string

text \<open>
  The table \<open>generate_kinematic_stats\<close> produces: one row for each trajectory and
  kinematic feature, indexed by the two levels \<open>traj_id\<close> and \<open>Columns\<close> (the feature
  name), with one column for each statistic and the target column.
\<close>

record stats_row =
  stats_traj_id :: string
  Columns :: string
  cells :: "string \<Rightarrow> cell"

record stats_df =
  stats_columns :: "string list"
  stats_rows :: "stats_row list"

text \<open>
  The pivoted table: one row for each trajectory, indexed by \<open>traj_id\<close>, the cells of
  a row listed by column name.
\<close>

record wide_row =
  wide_traj_id :: string
  wide_cells :: "(string \<times> cell) list"

record wide_df =
  wide_columns :: "string list"
  wide_rows :: "wide_row list"

definition lookup_cell :: "wide_row \<Rightarrow> string \<Rightarrow> cell" where
  "lookup_cell r c = (case map_of (wide_cells r) c of Some v \<Rightarrow> v | None \<Rightarrow> Num NaN)"

text \<open>Addition of \<open>float64\<close> cells, and the mean of a group as pandas takes it
  (missing cells skipped, \<open>NaN\<close> for a group with none left).\<close>

fun fadd :: "float64 \<Rightarrow> float64 \<Rightarrow> float64" where
  "fadd NaN _ = NaN"
| "fadd _ NaN = NaN"
| "fadd (Fin x) (Fin y) = Fin (x + y)"
| "fadd PInf NInf = NaN"
| "fadd NInf PInf = NaN"
| "fadd PInf _ = PInf"
| "fadd NInf _ = NInf"
| "fadd _ PInf = PInf"
| "fadd _ NInf = NInf"

definition group_mean :: "float64 list \<Rightarrow> float64" where
  "group_mean vs =
     (case present vs of
        [] \<Rightarrow> NaN
      | p # ps \<Rightarrow> fdiv (foldl fadd p ps) (Fin (real (length (p # ps)))))"

definition is_num :: "cell \<Rightarrow> bool" where
  "is_num v = (case v of Num x \<Rightarrow> True | Txt s \<Rightarrow> False)"

definition num_of :: "cell \<Rightarrow> float64" where
  "num_of v = (case v of Num x \<Rightarrow> x | Txt s \<Rightarrow> NaN)"

text \<open>\<open>str.strip('|')\<close>: drop every leading and every trailing bar.\<close>

definition strip_bar :: "string \<Rightarrow> string" where
  "strip_bar s =
     rev (dropWhile (\<lambda>ch. ch = CHR ''|'') (rev (dropWhile (\<lambda>ch. ch = CHR ''|'') s)))"

text \<open>
  \<open>small.reset_index().pivot_table(index='traj_id', columns='Columns')\<close> on the rows
  of one trajectory, followed by the renaming
  \<open>pivoted.columns.map('_'.join).str.strip('|')\<close>. The result has one row, with a
  column for each value column and feature, both in sorted order, whose group mean is
  not missing (\<open>dropna=True\<close>), named by joining the two labels with an underscore.
  Joined names are taken to be distinct.
\<close>

definition pivot_table :: "string list \<Rightarrow> stats_row list \<Rightarrow> (string \<times> cell) list" where
  "pivot_table value_columns small =
     (let features = remdups (sort (map Columns small));
          entries =
            concat (map (\<lambda>v. map (\<lambda>f.
                (strip_bar (v @ ''_'' @ f),
                 group_mean (map (\<lambda>r. num_of (cells r v))
                               (filter (\<lambda>r. Columns r = f) small))))
              features) (sort value_columns))
      in map (\<lambda>(name, m). (name, Num m)) (filter (\<lambda>(name, m). m \<noteq> NaN) entries))"

text \<open>
  The columns of \<open>float64\<close> type: those with no string cell. The mean, the default
  aggregation of \<open>pivot_table\<close>, is taken of these columns only (pandas 1.x leaves the
  columns of other types out).
\<close>

definition numeric_columns :: "stats_df \<Rightarrow> string list" where
  "numeric_columns dataframe =
     filter (\<lambda>c. list_all (\<lambda>r. is_num (cells r c)) (stats_rows dataframe))
       (stats_columns dataframe)"

text \<open>
  The body of the loop \<open>for val in ids_\<close>: the rows of trajectory \<open>val\<close>, the target
  read from their first row, the column \<open>'Species'\<close> dropped, the pivot, and the target
  assigned to the column \<open>target_col_name\<close> of the pivoted row. After
  \<open>reset_index().set_index('traj_id')\<close> the columns of \<open>small\<close> are \<open>Columns\<close>
  and the columns of the table.
\<close>

definition pivot_trajectory :: "stats_df \<Rightarrow> string \<Rightarrow> string \<Rightarrow> error + wide_df" where
  "pivot_trajectory dataframe target_col_name val =
     (let small = filter (\<lambda>r. stats_traj_id r = val) (stats_rows dataframe) in
      if ''traj_id'' \<in> set (stats_columns dataframe) \<or> ''Columns'' \<in> set (stats_columns dataframe)
      then Inl (ValueError ''cannot insert an index level, already exists'')
      else if target_col_name \<noteq> ''Columns'' \<and> target_col_name \<notin> set (stats_columns dataframe)
      then Inl (KeyError target_col_name)
      else
        (case small of
           [] \<Rightarrow> Inl (IndexError ''single positional indexer is out-of-bounds'')
         | first # _ \<Rightarrow>
             (let target = (if target_col_name = ''Columns'' then Txt (Columns first)
                            else cells first target_col_name)
              in if ''Species'' \<notin> set (stats_columns dataframe)
                 then Inl (KeyError ''Species'')
                 else
                   (let kept = filter (\<lambda>c. c \<noteq> ''Species'') (numeric_columns dataframe);
                        pivoted = pivot_table kept small
                    in Inr \<lparr>wide_columns =
                               (if target_col_name \<in> set (map fst pivoted) then map fst pivoted
                                else map fst pivoted @ [target_col_name]),
                             wide_rows =
                               [\<lparr>wide_traj_id = val,
                                 wide_cells = (target_col_name, target) # pivoted\<rparr>]\<rparr>))))"

text \<open>\<open>pd.concat(final_chunks)\<close> of pivoted tables.\<close>

definition wide_concat :: "wide_df list \<Rightarrow> error + wide_df" where
  "wide_concat dfs =
     (if dfs = [] then Inl (ValueError ''No objects to concatenate'')
      else Inr \<lparr>wide_columns = first_occurrences (concat (map wide_columns dfs)),
                wide_rows = concat (map wide_rows dfs)\<rparr>)"

text \<open>
  \<open>to_return[cols]\<close>: the columns named by \<open>cols\<close>, in that order, a repeated name
  giving a repeated column; \<open>KeyError\<close> when a name is not a column.
\<close>

definition select_columns :: "wide_df \<Rightarrow> string list \<Rightarrow> error + wide_df" where
  "select_columns to_return cols =
     (case filter (\<lambda>c. c \<notin> set (wide_columns to_return)) cols of
        missing # _ \<Rightarrow> Inl (KeyError missing)
      | [] \<Rightarrow>
          Inr \<lparr>wide_columns = cols,
               wide_rows = map (\<lambda>r. r\<lparr>wide_cells := map (\<lambda>c. (c, lookup_cell r c)) cols\<rparr>)
                             (wide_rows to_return)\<rparr>)"

text \<open>The loop \<open>for val in ids_\<close>; an exception in an iteration ends the call.\<close>

fun final_chunks :: "stats_df \<Rightarrow> string \<Rightarrow> string list \<Rightarrow> error + wide_df list" where
  "final_chunks dataframe target_col_name [] = Inr []"
| "final_chunks dataframe target_col_name (val # ids) =
     (case pivot_trajectory dataframe target_col_name val of
        Inl e \<Rightarrow> Inl e
      | Inr pivoted \<Rightarrow>
          (case final_chunks dataframe target_col_name ids of
             Inl e \<Rightarrow> Inl e
           | Inr rest \<Rightarrow> Inr (pivoted # rest)))"

text \<open>
  \<open>pivot_stats_df\<close>. The module-level list \<open>const.ORDERED_COLS\<close> is state: the
  function takes its value at the call and returns its value after the call beside the
  result. \<open>cols = const.ORDERED_COLS\<close> binds the same list object, so
  \<open>cols.append(target_col_name)\<close> appends to \<open>const.ORDERED_COLS\<close> itself.
\<close>

definition pivot_stats_df ::
    "string list \<Rightarrow> stats_df \<Rightarrow> string \<Rightarrow> (error + wide_df) \<times> string list" where
  "pivot_stats_df ORDERED_COLS dataframe target_col_name =
     (let ids = first_occurrences (map stats_traj_id (stats_rows dataframe)) in
      case final_chunks dataframe target_col_name ids of
        Inl e \<Rightarrow> (Inl e, ORDERED_COLS)
      | Inr pivoted_chunks \<Rightarrow>
          (case wide_concat pivoted_chunks of
             Inl e \<Rightarrow> (Inl e, ORDERED_COLS)
           | Inr to_return \<Rightarrow>
               (let cols = ORDERED_COLS @ [target_col_name]
                in (select_columns to_return cols, cols))))"

text \<open>
  A statistics table of two trajectories with the features \<open>Distance\<close> and
  \<open>Speed\<close>, the statistics \<open>mean\<close> and \<open>max\<close>, and one label column of the
  given name; and a canonical order of its pivoted columns.
\<close>

definition mk_stats_row :: "string \<Rightarrow> string \<Rightarrow> real \<Rightarrow> real \<Rightarrow> string \<Rightarrow> stats_row" where
  "mk_stats_row tid feat mean_v max_v lab =
     \<lparr>stats_traj_id = tid, Columns = feat,
      cells = (\<lambda>c. if c = ''mean'' then Num (Fin mean_v)
                   else if c = ''max'' then Num (Fin max_v) else Txt lab)\<rparr>"

definition kinematic_stats :: "string \<Rightarrow> stats_df" where
  "kinematic_stats label_column =
     \<lparr>stats_columns = [''mean'', ''max'', label_column],
      stats_rows = [mk_stats_row ''t1'' ''Distance'' 1 2 ''cat'',
                    mk_stats_row ''t1'' ''Speed'' 3 4 ''cat'',
                    mk_stats_row ''t2'' ''Distance'' 5 6 ''dog'',
                    mk_stats_row ''t2'' ''Speed'' 7 8 ''dog'']\<rparr>"

definition sample_ordered_cols :: "string list" where
  "sample_ordered_cols = [''mean_Distance'', ''max_Distance'', ''mean_Speed'', ''max_Speed'']"

section \<open>A reference worker and sample tables\<close>

text \<open>
  Modelled from the spec: \<open>utilities.DistanceCalculator.DistanceFormulaLog.haversine_distance\<close>
  is not among the sources. The spec gives the great-circle distance as the haversine
  formula on degree inputs converted to radians, with the mean Earth radius of 6371 km,
  in kilometres.
\<close>

definition haversine_distance :: "float64 \<Rightarrow> float64 \<Rightarrow> float64 \<Rightarrow> float64 \<Rightarrow> float64" where
  "haversine_distance lat1 lon1 lat2 lon2 =
     (case (lat1, lon1, lat2, lon2) of
        (Fin a1, Fin o1, Fin a2, Fin o2) \<Rightarrow>
          (let phi1 = a1 * pi / 180; phi2 = a2 * pi / 180;
               dphi = (a2 - a1) * pi / 180; dlam = (o2 - o1) * pi / 180;
               h = (sin (dphi / 2))\<^sup>2 + cos phi1 * cos phi2 * (sin (dlam / 2))\<^sup>2
           in Fin (2 * 6371 * arcsin (sqrt h)))
      | _ \<Rightarrow> NaN)"

text \<open>
  Modelled from the spec: \<open>Helpers._consecutive_distance_helper\<close> is not among the
  sources. The spec has the worker return its chunk with one column appended: at each
  position after the first the great-circle distance from the record before it, and 0 at
  the first position of the chunk. The column is the \<open>Distance_prev_to_curr\<close> that
  \<open>create_speed_from_prev_column\<close> reads back.
\<close>

definition consecutive_distance_helper :: worker where
  "consecutive_distance_helper chunk =
     set_column chunk ''Distance_prev_to_curr''
       (case rows chunk of
          [] \<Rightarrow> []
        | r # rs \<Rightarrow>
            Fin 0 # map2 (\<lambda>prev cur. haversine_distance (lat prev) (lon prev) (lat cur) (lon cur))
                      (r # rs) rs)"

text \<open>A record with no derived cells, and tables built from such records.\<close>

definition mk_point :: "string \<Rightarrow> int \<Rightarrow> real \<Rightarrow> real \<Rightarrow> point" where
  "mk_point tid t la lo =
     \<lparr>traj_id = tid, DateTime = t, lat = Fin la, lon = Fin lo, feature = (\<lambda>c. NaN)\<rparr>"

definition mk_table :: "point list \<Rightarrow> dataframe" where
  "mk_table ps = \<lparr>columns = [], rows = ps\<rparr>"

text \<open>
  The two-point trajectory of the spec's end-to-end example: \<open>(lat=0, lon=0, t=0s)\<close>
  and \<open>(lat=0, lon=1, t=3600s)\<close>, with no derived column.
\<close>

definition two_point_table :: dataframe where
  "two_point_table = mk_table [mk_point ''a'' 0 0 0, mk_point ''a'' 3600000000000 0 1]"

text \<open>
  A table that already carries the three prerequisite columns (every derived cell is 10).
  Its second record is one day and ten seconds after the first, within one trajectory;
  its third belongs to another trajectory and is earlier than the second.
\<close>

definition kinematic_table :: dataframe where
  "kinematic_table =
     \<lparr>columns = [''Distance_prev_to_curr'', ''Speed_prev_to_curr'', ''Acceleration_prev_to_curr''],
      rows = [\<lparr>traj_id = ''a'', DateTime = 0, lat = Fin 0, lon = Fin 0,
                 feature = (\<lambda>c. Fin 10)\<rparr>,
              \<lparr>traj_id = ''a'', DateTime = 86410000000000, lat = Fin 0, lon = Fin 1,
                 feature = (\<lambda>c. Fin 10)\<rparr>,
              \<lparr>traj_id = ''b'', DateTime = 5000000000, lat = Fin 1, lon = Fin 1,
                 feature = (\<lambda>c. Fin 10)\<rparr>]\<rparr>"


section \<open>Statements about minima and maxima\<close>



section \<open>Statements about the time divisor\<close>

text \<open>
  \<open>divided_by_seconds src out name numerator\<close>: \<open>out\<close> has the rows of \<open>src\<close>, and
  in every row but the first its column \<open>name\<close> is \<open>numerator\<close> of that row divided by
  the seconds field of the difference between the row's timestamp and that of the row
  just before it in \<open>src\<close>, whatever the two rows' trajectory identifiers.
\<close>

definition divided_by_seconds ::
    "dataframe \<Rightarrow> dataframe \<Rightarrow> string \<Rightarrow> (nat \<Rightarrow> float64) \<Rightarrow> bool" where
  "divided_by_seconds src out name numerator =
     (length (rows out) = length (rows src) \<and>
      (\<forall>i. 0 < i \<and> i < length (rows src) \<longrightarrow>
         feature (rows out ! i) name =
           fdiv (numerator i)
             (Fin (of_int (dt_seconds (DateTime (rows src ! i) - DateTime (rows src ! (i - 1))))))))"

section \<open>Properties of the partitioning\<close>

lemma rows_loc_slice: "rows (loc_slice i j df) = take (Suc j - i) (drop i (rows df))"
  by (simp add: loc_slice_def)

lemma columns_loc_slice: "columns (loc_slice i j df) = columns df"
  by (simp add: loc_slice_def)

lemma take_drop_next: "take n (drop i xs) @ drop (i + n) xs = drop i xs"
proof -
  have "drop (i + n) xs = drop n (drop i xs)"
    by (simp only: drop_drop add.commute)
  then show ?thesis
    by (simp only: append_take_drop_id)
qed

lemma concat_chunks_loop: "concat (map rows (chunks_loop i df)) = drop i (rows df)"
proof (induction i df rule: chunks_loop.induct)
  case (1 i df)
  show ?case
  proof (cases "i < length (rows df)")
    case True
    have "concat (map rows (chunks_loop i df)) =
          take 75001 (drop i (rows df)) @ concat (map rows (chunks_loop (i + 75001) df))"
      using True by (subst chunks_loop.simps) (simp add: rows_loc_slice)
    also have "\<dots> = take 75001 (drop i (rows df)) @ drop (i + 75001) (rows df)"
      using "1.IH" [OF True] by simp
    also have "\<dots> = drop i (rows df)"
      by (rule take_drop_next)
    finally show ?thesis .
  next
    case False
    then show ?thesis
      by (subst chunks_loop.simps) simp
  qed
qed

lemma columns_chunks_loop: "list_all (\<lambda>ch. columns ch = columns df) (chunks_loop i df)"
proof (induction i df rule: chunks_loop.induct)
  case (1 i df)
  show ?case
  proof (cases "i < length (rows df)")
    case True
    with "1.IH" show ?thesis
      by (subst chunks_loop.simps) (simp add: columns_loc_slice)
  next
    case False
    then show ?thesis by (subst chunks_loop.simps) simp
  qed
qed

text \<open>
  C1. The chunks cut by the row-count loop of
  \<open>create_distance_between_consecutive_column\<close>, concatenated in the order they were
  appended, are exactly the rows of the input table, in the same order, with no row
  repeated and none lost, and every chunk has the columns of the table; this holds for
  every table, the tables of 0 and 1 rows included.
\<close>

theorem chunks_concat_roundtrip:
  "concat (map rows (chunks df)) = rows df \<and>
   list_all (\<lambda>ch. columns ch = columns df) (chunks df)"
  by (simp add: chunks_def concat_chunks_loop columns_chunks_loop)

section \<open>Properties of the derived columns\<close>

lemma length_time_deltas: "length (time_deltas df) = length (rows df)"
  by (cases "rows df") (simp_all add: time_deltas_def)

lemma nth_time_deltas:
  assumes "0 < i" "i < length (rows df)"
  shows "time_deltas df ! i =
         Fin (of_int (dt_seconds (DateTime (rows df ! i) - DateTime (rows df ! (i - 1)))))"
proof (cases "rows df")
  case Nil
  with assms show ?thesis by simp
next
  case (Cons r rs)
  from assms obtain j where j: "i = Suc j" by (cases i) auto
  with assms Cons have "j < length rs" by simp
  then show ?thesis
    using Cons j by (simp add: time_deltas_def nth_Cons')
qed

lemma length_series_diff: "length (series_diff xs) = length xs"
  by (cases xs) (simp_all add: series_diff_def)

lemma nth_series_diff:
  assumes "0 < i" "i < length xs"
  shows "series_diff xs ! i = fsub (xs ! i) (xs ! (i - 1))"
proof (cases xs)
  case Nil
  with assms show ?thesis by simp
next
  case (Cons r rs)
  from assms obtain j where j: "i = Suc j" by (cases i) auto
  with assms Cons have "j < length rs" by simp
  then show ?thesis
    using Cons j by (simp add: series_diff_def nth_Cons')
qed

lemma length_series_div: "length (series_div xs ys) = min (length xs) (length ys)"
  by (simp add: series_div_def)

lemma set_column_Inr:
  assumes "set_column df name vs = Inr out"
  shows "length vs = length (rows df)"
    and "length (rows out) = length (rows df)"
    and "name \<in> set (columns out)"
    and "set (columns df) \<subseteq> set (columns out)"
    and "i < length (rows df) \<Longrightarrow> feature (rows out ! i) name = vs ! i"
    and "i < length (rows df) \<Longrightarrow> c \<noteq> name \<Longrightarrow> feature (rows out ! i) c = feature (rows df ! i) c"
    and "i < length (rows df) \<Longrightarrow> DateTime (rows out ! i) = DateTime (rows df ! i)"
    and "i < length (rows df) \<Longrightarrow> traj_id (rows out ! i) = traj_id (rows df ! i)"
  using assms by (auto simp add: set_column_def split: if_splits)

lemma set_column_not_KeyError: "set_column df name vs \<noteq> Inl (KeyError k)"
  by (simp add: set_column_def)

lemma set_column_total:
  "length vs = length (rows df) \<Longrightarrow> \<exists>out. set_column df name vs = Inr out"
  by (simp add: set_column_def)

lemma speed_block_Inr:
  assumes "speed_block src = Inr out"
  shows "length (rows out) = length (rows src)"
    and "''Speed_prev_to_curr'' \<in> set (columns out)"
    and "set (columns src) \<subseteq> set (columns out)"
    and "i < length (rows src) \<Longrightarrow>
         feature (rows out ! i) ''Speed_prev_to_curr'' =
           fdiv (feature (rows src ! i) ''Distance_prev_to_curr'') (time_deltas src ! i)"
proof -
  from assms obtain ds where
    ds: "get_column src ''Distance_prev_to_curr'' = Inr ds" and
    sc: "set_column src ''Speed_prev_to_curr'' (series_div ds (time_deltas src)) = Inr out"
    by (auto simp add: speed_block_def split: sum.splits)
  from ds have dsv: "ds = map (\<lambda>r. feature r ''Distance_prev_to_curr'') (rows src)"
    by (auto simp add: get_column_def split: if_splits)
  show "length (rows out) = length (rows src)"
    and "''Speed_prev_to_curr'' \<in> set (columns out)"
    and "set (columns src) \<subseteq> set (columns out)"
    using set_column_Inr [OF sc] by blast+
  show "feature (rows out ! i) ''Speed_prev_to_curr'' =
          fdiv (feature (rows src ! i) ''Distance_prev_to_curr'') (time_deltas src ! i)"
    if "i < length (rows src)"
    using that set_column_Inr(5) [OF sc that]
    by (simp add: series_div_def dsv length_time_deltas)
qed

lemma acceleration_block_Inr:
  assumes "acceleration_block src = Inr out"
  shows "length (rows out) = length (rows src)"
    and "''Acceleration_prev_to_curr'' \<in> set (columns out)"
    and "set (columns src) \<subseteq> set (columns out)"
    and "0 < i \<Longrightarrow> i < length (rows src) \<Longrightarrow>
         feature (rows out ! i) ''Acceleration_prev_to_curr'' =
           fdiv (fsub (feature (rows src ! i) ''Speed_prev_to_curr'')
                      (feature (rows src ! (i - 1)) ''Speed_prev_to_curr''))
                (time_deltas src ! i)"
proof -
  from assms obtain ds where
    ds: "get_column src ''Speed_prev_to_curr'' = Inr ds" and
    sc: "set_column src ''Acceleration_prev_to_curr''
           (series_div (series_diff ds) (time_deltas src)) = Inr out"
    by (auto simp add: acceleration_block_def split: sum.splits)
  from ds have dsv: "ds = map (\<lambda>r. feature r ''Speed_prev_to_curr'') (rows src)"
    by (auto simp add: get_column_def split: if_splits)
  show "length (rows out) = length (rows src)"
    and "''Acceleration_prev_to_curr'' \<in> set (columns out)"
    and "set (columns src) \<subseteq> set (columns out)"
    using set_column_Inr [OF sc] by blast+
  show "feature (rows out ! i) ''Acceleration_prev_to_curr'' =
           fdiv (fsub (feature (rows src ! i) ''Speed_prev_to_curr'')
                      (feature (rows src ! (i - 1)) ''Speed_prev_to_curr''))
                (time_deltas src ! i)"
    if "0 < i" "i < length (rows src)"
  proof -
    have "series_diff ds ! i = fsub (ds ! i) (ds ! (i - 1))"
      using that by (simp add: nth_series_diff dsv)
    then show ?thesis
      using that set_column_Inr(5) [OF sc that(2)]
      by (simp add: series_div_def dsv length_time_deltas length_series_diff)
  qed
qed

lemma jerk_block_Inr:
  assumes "jerk_block src = Inr out"
  shows "length (rows out) = length (rows src)"
    and "''jerk_prev_to_curr'' \<in> set (columns out)"
    and "set (columns src) \<subseteq> set (columns out)"
    and "0 < i \<Longrightarrow> i < length (rows src) \<Longrightarrow>
         feature (rows out ! i) ''jerk_prev_to_curr'' =
           fdiv (fsub (feature (rows src ! i) ''Acceleration_prev_to_curr'')
                      (feature (rows src ! (i - 1)) ''Acceleration_prev_to_curr''))
                (time_deltas src ! i)"
proof -
  from assms obtain ds where
    ds: "get_column src ''Acceleration_prev_to_curr'' = Inr ds" and
    sc: "set_column src ''jerk_prev_to_curr''
           (series_div (series_diff ds) (time_deltas src)) = Inr out"
    by (auto simp add: jerk_block_def split: sum.splits)
  from ds have dsv: "ds = map (\<lambda>r. feature r ''Acceleration_prev_to_curr'') (rows src)"
    by (auto simp add: get_column_def split: if_splits)
  show "length (rows out) = length (rows src)"
    and "''jerk_prev_to_curr'' \<in> set (columns out)"
    and "set (columns src) \<subseteq> set (columns out)"
    using set_column_Inr [OF sc] by blast+
  show "feature (rows out ! i) ''jerk_prev_to_curr'' =
           fdiv (fsub (feature (rows src ! i) ''Acceleration_prev_to_curr'')
                      (feature (rows src ! (i - 1)) ''Acceleration_prev_to_curr''))
                (time_deltas src ! i)"
    if "0 < i" "i < length (rows src)"
  proof -
    have "series_diff ds ! i = fsub (ds ! i) (ds ! (i - 1))"
      using that by (simp add: nth_series_diff dsv)
    then show ?thesis
      using that set_column_Inr(5) [OF sc that(2)]
      by (simp add: series_div_def dsv length_time_deltas length_series_diff)
  qed
qed

text \<open>Which of its two paths a function took.\<close>

lemma block_KeyError_iff:
  "(\<exists>k. speed_block df = Inl (KeyError k)) \<longleftrightarrow> ''Distance_prev_to_curr'' \<notin> set (columns df)"
  "(\<exists>k. acceleration_block df = Inl (KeyError k)) \<longleftrightarrow> ''Speed_prev_to_curr'' \<notin> set (columns df)"
  "(\<exists>k. jerk_block df = Inl (KeyError k)) \<longleftrightarrow> ''Acceleration_prev_to_curr'' \<notin> set (columns df)"
  by (auto simp add: speed_block_def acceleration_block_def jerk_block_def get_column_def
      set_column_def)

lemma speed_paths:
  assumes "create_speed_from_prev_column h c df = Inr out"
  shows "\<exists>src. (src = df \<or> create_distance_between_consecutive_column h c df = Inr src) \<and>
           speed_block src = Inr out"
  using assms
  by (auto simp add: create_speed_from_prev_column_def split: sum.splits error.splits)

lemma acceleration_paths:
  assumes "create_acceleration_from_prev_column h c df = Inr out"
  shows "\<exists>src. (src = df \<or> create_speed_from_prev_column h c df = Inr src) \<and>
           acceleration_block src = Inr out"
  using assms
  by (auto simp add: create_acceleration_from_prev_column_def split: sum.splits error.splits)

lemma jerk_paths:
  assumes "create_jerk_from_prev_column h c df = Inr out"
  shows "\<exists>src. (src = df \<or> create_acceleration_from_prev_column h c df = Inr src) \<and>
           jerk_block src = Inr out"
  using assms
  by (auto simp add: create_jerk_from_prev_column_def split: sum.splits error.splits)

lemma dt_seconds_range: "0 \<le> dt_seconds d \<and> dt_seconds d \<le> 86399"
  by (simp add: dt_seconds_def) 

lemma dt_seconds_not_total:
  assumes "86400 * 1000000000 \<le> d"
  shows "dt_seconds d \<noteq> d div 1000000000"
proof -
  have "(86400::int) \<le> d div 1000000000"
    using assms by (simp add: zdiv_mono1 [of "86400 * 1000000000" d 1000000000, simplified])
  moreover have "dt_seconds d < 86400"
    by (simp add: dt_seconds_def)
  ultimately show ?thesis by linarith
qed

lemma speed_divided:
  assumes "speed_block src = Inr out"
  shows "divided_by_seconds src out ''Speed_prev_to_curr''
           (\<lambda>i. feature (rows src ! i) ''Distance_prev_to_curr'')"
  unfolding divided_by_seconds_def
  using speed_block_Inr(1,4) [OF assms] by (simp add: nth_time_deltas)

lemma acceleration_divided:
  assumes "acceleration_block src = Inr out"
  shows "divided_by_seconds src out ''Acceleration_prev_to_curr''
           (\<lambda>i. fsub (feature (rows src ! i) ''Speed_prev_to_curr'')
                      (feature (rows src ! (i - 1)) ''Speed_prev_to_curr''))"
  unfolding divided_by_seconds_def
  using acceleration_block_Inr(1,4) [OF assms] by (simp add: nth_time_deltas)

lemma jerk_divided:
  assumes "jerk_block src = Inr out"
  shows "divided_by_seconds src out ''jerk_prev_to_curr''
           (\<lambda>i. fsub (feature (rows src ! i) ''Acceleration_prev_to_curr'')
                      (feature (rows src ! (i - 1)) ''Acceleration_prev_to_curr''))"
  unfolding divided_by_seconds_def
  using jerk_block_Inr(1,4) [OF assms] by (simp add: nth_time_deltas)

lemma dt_seconds_decomposition:
  "\<exists>days nanos. d = (days * 86400 + dt_seconds d) * 1000000000 + nanos \<and>
     0 \<le> nanos \<and> nanos < 1000000000"
proof -
  let ?q = "d div 1000000000"
  have q: "?q div 86400 * 86400 + dt_seconds d = ?q"
    unfolding dt_seconds_def by (rule div_mult_mod_eq)
  have "d = ?q * 1000000000 + d mod 1000000000"
    by (simp only: div_mult_mod_eq)
  then have "d = (?q div 86400 * 86400 + dt_seconds d) * 1000000000 + d mod 1000000000"
    by (simp only: q)
  moreover have "0 \<le> d mod 1000000000" "d mod 1000000000 < 1000000000"
    by simp_all
  ultimately show ?thesis by blast
qed

lemma dt_seconds_within_day:
  assumes "0 \<le> d" "d < 86400 * 1000000000"
  shows "dt_seconds d = d div 1000000000"
proof -
  have "0 \<le> d div 1000000000" using assms(1) by simp
  moreover have "d div 1000000000 < 86400" using assms(2) by simp
  ultimately show ?thesis by (simp add: dt_seconds_def)
qed

lemma dt_seconds_unique:
  assumes "d = (days * 86400 + s) * 1000000000 + nanos" "0 \<le> nanos" "nanos < 1000000000"
    and "0 \<le> s" "s \<le> 86399"
  shows "s = dt_seconds d"
proof -
  have "d div 1000000000 = days * 86400 + s"
    using assms(1-3) by (simp add: div_pos_pos_trivial)
  then show ?thesis
    using assms(4,5) by (simp add: dt_seconds_def)
qed

lemma fdiv_finite:
  "s \<noteq> 0 \<Longrightarrow> fdiv (Fin x) (Fin (of_int s)) = Fin (x / of_int s)"
  by simp

text \<open>
  C9. In \<open>create_speed_from_prev_column\<close>, \<open>create_acceleration_from_prev_column\<close>
  and \<open>create_jerk_from_prev_column\<close> the divisor of a row is the seconds field, a
  value from 0 to 86399, of the difference between the row's timestamp and that of the
  row just before it in the whole table the division runs on (the input table, or the
  table the prerequisite call returned); the rows' trajectory identifiers play no part,
  and for a difference of a day or more the divisor is not the elapsed seconds. The
  seconds field \<open>s\<close> of a difference \<open>d\<close> in nanoseconds is the one value from 0
  to 86399 with \<open>d = (days * 86400 + s) * 10\<^sup>9 + nanos\<close> for a whole number of days
  and \<open>0 \<le> nanos < 10\<^sup>9\<close>; for a difference from 0 up to a day it is the elapsed
  whole seconds. A finite numerator divided by a divisor other than 0 is their quotient.
\<close>

theorem time_divisor_is_seconds_component:
  "(create_speed_from_prev_column h c df = Inr out \<longrightarrow>
      (\<exists>src. (src = df \<or> create_distance_between_consecutive_column h c df = Inr src) \<and>
         divided_by_seconds src out ''Speed_prev_to_curr''
           (\<lambda>i. feature (rows src ! i) ''Distance_prev_to_curr''))) \<and>
   (create_acceleration_from_prev_column h c df = Inr out \<longrightarrow>
      (\<exists>src. (src = df \<or> create_speed_from_prev_column h c df = Inr src) \<and>
         divided_by_seconds src out ''Acceleration_prev_to_curr''
           (\<lambda>i. fsub (feature (rows src ! i) ''Speed_prev_to_curr'')
                      (feature (rows src ! (i - 1)) ''Speed_prev_to_curr'')))) \<and>
   (create_jerk_from_prev_column h c df = Inr out \<longrightarrow>
      (\<exists>src. (src = df \<or> create_acceleration_from_prev_column h c df = Inr src) \<and>
         divided_by_seconds src out ''jerk_prev_to_curr''
           (\<lambda>i. fsub (feature (rows src ! i) ''Acceleration_prev_to_curr'')
                      (feature (rows src ! (i - 1)) ''Acceleration_prev_to_curr'')))) \<and>
   0 \<le> dt_seconds d \<and> dt_seconds d \<le> 86399 \<and>
   (86400 * 1000000000 \<le> d \<longrightarrow> dt_seconds d \<noteq> d div 1000000000) \<and>
   (\<exists>days nanos. d = (days * 86400 + dt_seconds d) * 1000000000 + nanos \<and>
      0 \<le> nanos \<and> nanos < 1000000000) \<and>
   (0 \<le> d \<and> d < 86400 * 1000000000 \<longrightarrow> dt_seconds d = d div 1000000000) \<and>
   (dt_seconds d \<noteq> 0 \<longrightarrow>
      fdiv (Fin x) (Fin (of_int (dt_seconds d))) = Fin (x / of_int (dt_seconds d)))"
proof (intro conjI impI)
  assume "create_speed_from_prev_column h c df = Inr out"
  from speed_paths [OF this] show
    "\<exists>src. (src = df \<or> create_distance_between_consecutive_column h c df = Inr src) \<and>
       divided_by_seconds src out ''Speed_prev_to_curr''
         (\<lambda>i. feature (rows src ! i) ''Distance_prev_to_curr'')"
    using speed_divided by blast
next
  assume "create_acceleration_from_prev_column h c df = Inr out"
  from acceleration_paths [OF this] show
    "\<exists>src. (src = df \<or> create_speed_from_prev_column h c df = Inr src) \<and>
       divided_by_seconds src out ''Acceleration_prev_to_curr''
         (\<lambda>i. fsub (feature (rows src ! i) ''Speed_prev_to_curr'')
                    (feature (rows src ! (i - 1)) ''Speed_prev_to_curr''))"
    using acceleration_divided by blast
next
  assume "create_jerk_from_prev_column h c df = Inr out"
  from jerk_paths [OF this] show
    "\<exists>src. (src = df \<or> create_acceleration_from_prev_column h c df = Inr src) \<and>
       divided_by_seconds src out ''jerk_prev_to_curr''
         (\<lambda>i. fsub (feature (rows src ! i) ''Acceleration_prev_to_curr'')
                    (feature (rows src ! (i - 1)) ''Acceleration_prev_to_curr''))"
    using jerk_divided by blast
next
  show "0 \<le> dt_seconds d" "dt_seconds d \<le> 86399"
    using dt_seconds_range by simp_all
next
  assume "86400 * 1000000000 \<le> d"
  then show "dt_seconds d \<noteq> d div 1000000000"
    by (rule dt_seconds_not_total)
next
  show "\<exists>days nanos. d = (days * 86400 + dt_seconds d) * 1000000000 + nanos \<and>
      0 \<le> nanos \<and> nanos < 1000000000"
    by (rule dt_seconds_decomposition)
next
  assume "0 \<le> d \<and> d < 86400 * 1000000000"
  then show "dt_seconds d = d div 1000000000"
    using dt_seconds_within_day by blast
next
  assume "dt_seconds d \<noteq> 0"
  then show "fdiv (Fin x) (Fin (of_int (dt_seconds d))) = Fin (x / of_int (dt_seconds d))"
    by (rule fdiv_finite)
qed

lemma speed_block_total:
  assumes "''Distance_prev_to_curr'' \<in> set (columns df)"
  shows "\<exists>out. speed_block df = Inr out"
  using assms
  by (simp add: speed_block_def get_column_def set_column_def series_div_def
      length_time_deltas)

lemma acceleration_block_total:
  assumes "''Speed_prev_to_curr'' \<in> set (columns df)"
  shows "\<exists>out. acceleration_block df = Inr out"
  using assms
  by (simp add: acceleration_block_def get_column_def set_column_def series_div_def
      length_time_deltas length_series_diff)

lemma jerk_block_total:
  assumes "''Acceleration_prev_to_curr'' \<in> set (columns df)"
  shows "\<exists>out. jerk_block df = Inr out"
  using assms
  by (simp add: jerk_block_def get_column_def set_column_def series_div_def
      length_time_deltas length_series_diff)

lemma try_path:
  "speed_block df = Inr out \<Longrightarrow> create_speed_from_prev_column h c df = Inr out"
  "acceleration_block df = Inr out \<Longrightarrow> create_acceleration_from_prev_column h c df = Inr out"
  "jerk_block df = Inr out \<Longrightarrow> create_jerk_from_prev_column h c df = Inr out"
  by (simp_all add: create_speed_from_prev_column_def create_acceleration_from_prev_column_def
      create_jerk_from_prev_column_def)

lemma columns_kinematic_table:
  "columns kinematic_table =
     [''Distance_prev_to_curr'', ''Speed_prev_to_curr'', ''Acceleration_prev_to_curr'']"
  by (simp add: kinematic_table_def)

theorem time_divisor_is_seconds_component_witness:
  "(\<exists>out. create_speed_from_prev_column consecutive_distance_helper Inr kinematic_table = Inr out \<and>
      (\<exists>src. (src = kinematic_table \<or>
               create_distance_between_consecutive_column consecutive_distance_helper Inr
                 kinematic_table = Inr src) \<and>
         divided_by_seconds src out ''Speed_prev_to_curr''
           (\<lambda>i. feature (rows src ! i) ''Distance_prev_to_curr''))) \<and>
   (\<exists>out. create_acceleration_from_prev_column consecutive_distance_helper Inr kinematic_table = Inr out \<and>
      (\<exists>src. (src = kinematic_table \<or>
               create_speed_from_prev_column consecutive_distance_helper Inr
                 kinematic_table = Inr src) \<and>
         divided_by_seconds src out ''Acceleration_prev_to_curr''
           (\<lambda>i. fsub (feature (rows src ! i) ''Speed_prev_to_curr'')
                      (feature (rows src ! (i - 1)) ''Speed_prev_to_curr'')))) \<and>
   (\<exists>out. create_jerk_from_prev_column consecutive_distance_helper Inr kinematic_table = Inr out \<and>
      (\<exists>src. (src = kinematic_table \<or>
               create_acceleration_from_prev_column consecutive_distance_helper Inr
                 kinematic_table = Inr src) \<and>
         divided_by_seconds src out ''jerk_prev_to_curr''
           (\<lambda>i. fsub (feature (rows src ! i) ''Acceleration_prev_to_curr'')
                      (feature (rows src ! (i - 1)) ''Acceleration_prev_to_curr'')))) \<and>
   (86400 * 1000000000 \<le> (86410000000000::int) \<and>
    dt_seconds 86410000000000 = 10 \<and>
    dt_seconds 86410000000000 \<noteq> 86410000000000 div 1000000000) \<and>
   (\<exists>days nanos. (86410000000000::int) =
        (days * 86400 + dt_seconds 86410000000000) * 1000000000 + nanos \<and>
      0 \<le> nanos \<and> nanos < 1000000000) \<and>
   ((0::int) \<le> 3600000000000 \<and> (3600000000000::int) < 86400 * 1000000000 \<and>
    dt_seconds 3600000000000 = 3600) \<and>
   dt_seconds (5000000000 - 86410000000000) = 86395 \<and>
   (dt_seconds 86410000000000 \<noteq> 0 \<and>
    fdiv (Fin 10) (Fin (of_int (dt_seconds 86410000000000))) = Fin 1)"
proof -
  let ?h = consecutive_distance_helper
  let ?c = "Inr :: worker"
  obtain b1 where "speed_block kinematic_table = Inr b1"
    using speed_block_total [of kinematic_table] by (auto simp add: columns_kinematic_table)
  then have o1: "create_speed_from_prev_column ?h ?c kinematic_table = Inr b1"
    by (rule try_path)
  obtain b2 where "acceleration_block kinematic_table = Inr b2"
    using acceleration_block_total [of kinematic_table]
    by (auto simp add: columns_kinematic_table)
  then have o2: "create_acceleration_from_prev_column ?h ?c kinematic_table = Inr b2"
    by (rule try_path)
  obtain b3 where "jerk_block kinematic_table = Inr b3"
    using jerk_block_total [of kinematic_table] by (auto simp add: columns_kinematic_table)
  then have o3: "create_jerk_from_prev_column ?h ?c kinematic_table = Inr b3"
    by (rule try_path)
  have d: "86400 * 1000000000 \<le> (86410000000000::int)" by simp
  have v: "dt_seconds 86410000000000 = 10" by (simp add: dt_seconds_def)
  note t1 = time_divisor_is_seconds_component [of ?h ?c kinematic_table b1 86410000000000]
  note t2 = time_divisor_is_seconds_component [of ?h ?c kinematic_table b2 86410000000000]
  note t3 = time_divisor_is_seconds_component [of ?h ?c kinematic_table b3 86410000000000]
  have p1: "\<exists>out. create_speed_from_prev_column ?h ?c kinematic_table = Inr out \<and>
      (\<exists>src. (src = kinematic_table \<or>
               create_distance_between_consecutive_column ?h ?c kinematic_table = Inr src) \<and>
         divided_by_seconds src out ''Speed_prev_to_curr''
           (\<lambda>i. feature (rows src ! i) ''Distance_prev_to_curr''))"
    using t1 o1 by (intro exI [of _ b1]) simp
  have p2: "\<exists>out. create_acceleration_from_prev_column ?h ?c kinematic_table = Inr out \<and>
      (\<exists>src. (src = kinematic_table \<or>
               create_speed_from_prev_column ?h ?c kinematic_table = Inr src) \<and>
         divided_by_seconds src out ''Acceleration_prev_to_curr''
           (\<lambda>i. fsub (feature (rows src ! i) ''Speed_prev_to_curr'')
                      (feature (rows src ! (i - 1)) ''Speed_prev_to_curr'')))"
    using t2 o2 by (intro exI [of _ b2]) simp
  have p3: "\<exists>out. create_jerk_from_prev_column ?h ?c kinematic_table = Inr out \<and>
      (\<exists>src. (src = kinematic_table \<or>
               create_acceleration_from_prev_column ?h ?c kinematic_table = Inr src) \<and>
         divided_by_seconds src out ''jerk_prev_to_curr''
           (\<lambda>i. fsub (feature (rows src ! i) ''Acceleration_prev_to_curr'')
                      (feature (rows src ! (i - 1)) ''Acceleration_prev_to_curr'')))"
    using t3 o3 by (intro exI [of _ b3]) simp
  have p4: "dt_seconds 86410000000000 \<noteq> 86410000000000 div 1000000000"
    using t1 d by blast
  have p5: "\<exists>days nanos. (86410000000000::int) =
        (days * 86400 + dt_seconds 86410000000000) * 1000000000 + nanos \<and>
      0 \<le> nanos \<and> nanos < 1000000000"
    using t1 by blast
  have r: "(0::int) \<le> 3600000000000" "(3600000000000::int) < 86400 * 1000000000"
    by simp_all
  have "dt_seconds 3600000000000 = 3600000000000 div 1000000000"
    using time_divisor_is_seconds_component [of ?h ?c kinematic_table b1 3600000000000] r
    by blast
  then have p6: "dt_seconds 3600000000000 = 3600" by simp
  have p7: "dt_seconds (5000000000 - 86410000000000) = 86395"
    by (simp add: dt_seconds_def)
  have n: "dt_seconds 86410000000000 \<noteq> 0" by (simp add: v)
  have "fdiv (Fin 10) (Fin (of_int (dt_seconds 86410000000000))) =
          Fin (10 / of_int (dt_seconds 86410000000000))"
    using time_divisor_is_seconds_component
      [of ?h ?c kinematic_table b1 86410000000000 10] n
    by blast
  then have p8: "fdiv (Fin 10) (Fin (of_int (dt_seconds 86410000000000))) = Fin 1"
    by (simp add: v)
  from p1 p2 p3 p4 p5 p6 p7 p8 d v r n show ?thesis by (intro conjI)
qed

lemma time_deltas_kinematic_table: "time_deltas kinematic_table = [NaN, Fin 10, Fin 86395]"
  by (simp add: time_deltas_def kinematic_table_def dt_seconds_def)

text \<open>
  C5. On the sample table, whose second record comes one day and ten seconds after the
  first with a distance of 10, \<open>create_speed_from_prev_column\<close> sets the second speed
  to 10 / 10 = 1 and not to 10 / 86410: the divisor is the seconds field of the time
  difference, not the time difference in seconds. The third speed, 10 / 86395, divides
  by the seconds field of a negative difference.
\<close>

theorem speed_divides_by_seconds_field:
  "\<exists>out. create_speed_from_prev_column h c kinematic_table = Inr out \<and>
         map (\<lambda>r. feature r ''Speed_prev_to_curr'') (rows out) = [NaN, Fin 1, Fin (2 / 17279)] \<and>
         map DateTime (rows out) = [0, 86410000000000, 5000000000] \<and>
         map (\<lambda>r. feature r ''Distance_prev_to_curr'') (rows out) = [Fin 10, Fin 10, Fin 10]"
  by (simp add: create_speed_from_prev_column_def speed_block_def get_column_def set_column_def
      series_div_def time_deltas_kinematic_table) (simp add: kinematic_table_def)

lemma fdiv_zero_not_finite: "\<not> is_finite (fdiv x (Fin 0))"
  by (cases x) (simp_all add: is_finite_def)

lemma speed_same_timestamp_not_finite:
  assumes "speed_block src = Inr out" "0 < i" "i < length (rows src)"
    and "DateTime (rows src ! i) = DateTime (rows src ! (i - 1))"
  shows "\<not> is_finite (feature (rows out ! i) ''Speed_prev_to_curr'')"
  using speed_block_Inr(4) [OF assms(1,3)] nth_time_deltas [OF assms(2,3)] assms(4)
  by (simp add: dt_seconds_def fdiv_zero_not_finite)

lemma chunks_single:
  assumes "0 < length (rows df)" "length (rows df) \<le> 75001"
  shows "chunks df = [df]"
proof -
  have a: "chunks_loop 75001 df = []"
    using assms by (subst chunks_loop.simps) simp
  have "chunks_loop 0 df = [loc_slice 0 75000 df]"
    using assms a by (subst chunks_loop.simps) simp
  moreover have "loc_slice 0 75000 df = df"
    using assms by (simp add: loc_slice_def)
  ultimately show ?thesis by (simp add: chunks_def)
qed

lemma chunks_empty: "rows df = [] \<Longrightarrow> chunks df = []"
  by (simp add: chunks_def chunks_loop.simps)

lemma length_rows_loc_slice: "length (rows (loc_slice i (i + 75000) df)) \<le> 75001"
  by (simp add: loc_slice_def)

lemma chunks_loop_bound: "list_all (\<lambda>ch. length (rows ch) \<le> 75001) (chunks_loop i df)"
proof (induction i df rule: chunks_loop.induct)
  case (1 i df)
  show ?case
  proof (cases "i < length (rows df)")
    case True
    with "1.IH" show ?thesis
      by (subst chunks_loop.simps) (simp add: length_rows_loc_slice)
  next
    case False
    then show ?thesis by (subst chunks_loop.simps) simp
  qed
qed

text \<open>
  C3. A table of 75,001 rows is cut into a single chunk of 75,001 rows, one more than
  75,000: the inclusive slice \<open>.loc[i: i + 75000]\<close> holds 75,001 rows.
\<close>

theorem chunk_of_75001_rows:
  "map (\<lambda>ch. length (rows ch)) (chunks (mk_table (replicate 75001 (mk_point ''a'' 0 0 0)))) =
     [75001]"
  by (simp add: chunks_single mk_table_def)

text \<open>
  C10. On a table of 0 rows each of \<open>create_distance_between_consecutive_column\<close>,
  \<open>create_distance_from_start_column\<close>, \<open>create_distance_from_given_point_column\<close>
  and \<open>create_point_within_range_column\<close> raises the \<open>ValueError\<close> of a worker pool
  asked for zero processes, whatever the worker and the constructor are; none returns
  an empty table.
\<close>

theorem empty_table_raises:
  "rows df = [] \<Longrightarrow>
   create_distance_between_consecutive_column h1 c df =
     Inl (ValueError ''Number of processes must be at least 1'') \<and>
   create_distance_from_start_column h2 c df =
     Inl (ValueError ''Number of processes must be at least 1'') \<and>
   create_distance_from_given_point_column h3 c df coordinates =
     Inl (ValueError ''Number of processes must be at least 1'') \<and>
   create_point_within_range_column h4 c df coordinates dist_range =
     Inl (ValueError ''Number of processes must be at least 1'')"
  by (simp add: chunks_empty Pool_def create_distance_between_consecutive_column_def
      create_distance_from_start_column_def create_distance_from_given_point_column_def
      create_point_within_range_column_def)

theorem empty_table_raises_witness:
  "rows (mk_table []) = [] \<and>
   create_distance_between_consecutive_column consecutive_distance_helper Inr (mk_table []) =
     Inl (ValueError ''Number of processes must be at least 1'') \<and>
   create_distance_from_start_column Inr Inr (mk_table []) =
     Inl (ValueError ''Number of processes must be at least 1'') \<and>
   create_distance_from_given_point_column (\<lambda>part point. Inr part) Inr (mk_table [])
       (Fin 0, Fin 0) =
     Inl (ValueError ''Number of processes must be at least 1'') \<and>
   create_point_within_range_column (\<lambda>part point range. Inr part) Inr (mk_table [])
       (Fin 0, Fin 0) (Fin 1) =
     Inl (ValueError ''Number of processes must be at least 1'')"
proof -
  have e: "rows (mk_table []) = []" by (simp add: mk_table_def)
  show ?thesis
    using e empty_table_raises [OF e, of consecutive_distance_helper Inr Inr
        "\<lambda>part point. Inr part" "(Fin 0, Fin 0)" "\<lambda>part point range. Inr part" "Fin 1"]
    by simp
qed

lemma speed_has_column:
  assumes "create_speed_from_prev_column h c df = Inr s"
  shows "''Speed_prev_to_curr'' \<in> set (columns s)"
  using speed_paths [OF assms] speed_block_Inr(2) by blast

lemma acceleration_has_column:
  assumes "create_acceleration_from_prev_column h c df = Inr a"
  shows "''Acceleration_prev_to_curr'' \<in> set (columns a)"
  using acceleration_paths [OF assms] acceleration_block_Inr(2) by blast

lemma block_not_KeyError:
  "''Distance_prev_to_curr'' \<in> set (columns df) \<Longrightarrow> speed_block df \<noteq> Inl (KeyError k)"
  "''Speed_prev_to_curr'' \<in> set (columns df) \<Longrightarrow> acceleration_block df \<noteq> Inl (KeyError k)"
  "''Acceleration_prev_to_curr'' \<in> set (columns df) \<Longrightarrow> jerk_block df \<noteq> Inl (KeyError k)"
  by (simp_all add: speed_block_def acceleration_block_def jerk_block_def get_column_def
      set_column_def)

lemma acceleration_try:
  assumes "''Speed_prev_to_curr'' \<in> set (columns df)"
  shows "create_acceleration_from_prev_column h c df = acceleration_block df"
proof (cases "acceleration_block df")
  case (Inl e)
  then have "\<nexists>k. e = KeyError k"
    using block_not_KeyError(2) [OF assms] by auto
  with Inl show ?thesis
    by (cases e) (simp_all add: create_acceleration_from_prev_column_def)
next
  case (Inr out)
  then show ?thesis by (simp add: create_acceleration_from_prev_column_def)
qed

lemma jerk_try:
  assumes "''Acceleration_prev_to_curr'' \<in> set (columns df)"
  shows "create_jerk_from_prev_column h c df = jerk_block df"
proof (cases "jerk_block df")
  case (Inl e)
  then have "\<nexists>k. e = KeyError k"
    using block_not_KeyError(3) [OF assms] by auto
  with Inl show ?thesis
    by (cases e) (simp_all add: create_jerk_from_prev_column_def)
next
  case (Inr out)
  then show ?thesis by (simp add: create_jerk_from_prev_column_def)
qed

lemma acceleration_except:
  assumes "''Speed_prev_to_curr'' \<notin> set (columns df)"
  shows "create_acceleration_from_prev_column h c df =
         (case create_speed_from_prev_column h c df of
            Inl e \<Rightarrow> Inl e | Inr s \<Rightarrow> acceleration_block s)"
  using assms
  by (simp add: create_acceleration_from_prev_column_def acceleration_block_def get_column_def)

lemma jerk_except:
  assumes "''Acceleration_prev_to_curr'' \<notin> set (columns df)"
  shows "create_jerk_from_prev_column h c df =
         (case create_acceleration_from_prev_column h c df of
            Inl e \<Rightarrow> Inl e | Inr a \<Rightarrow> jerk_block a)"
  using assms
  by (simp add: create_jerk_from_prev_column_def jerk_block_def get_column_def)

text \<open>
  C4. On a table with none of the columns \<open>Distance_prev_to_curr\<close>,
  \<open>Speed_prev_to_curr\<close> and \<open>Acceleration_prev_to_curr\<close>, a direct call of
  \<open>create_jerk_from_prev_column\<close> gives the very result (the same table, hence the
  same jerk column, or the same exception) as \<open>create_speed_from_prev_column\<close>, then
  \<open>create_acceleration_from_prev_column\<close> on its result, then
  \<open>create_jerk_from_prev_column\<close> on that, whatever the worker and the constructor are.
\<close>

theorem jerk_fallback_chain:
  assumes "''Distance_prev_to_curr'' \<notin> set (columns df)"
    and "''Speed_prev_to_curr'' \<notin> set (columns df)"
    and "''Acceleration_prev_to_curr'' \<notin> set (columns df)"
  shows "create_jerk_from_prev_column h c df =
         (case create_speed_from_prev_column h c df of
            Inl e \<Rightarrow> Inl e
          | Inr s \<Rightarrow>
              (case create_acceleration_from_prev_column h c s of
                 Inl e \<Rightarrow> Inl e
               | Inr a \<Rightarrow> create_jerk_from_prev_column h c a))"
proof (cases "create_speed_from_prev_column h c df")
  case (Inl e)
  then show ?thesis
    by (simp add: jerk_except [OF assms(3)] acceleration_except [OF assms(2)])
next
  case (Inr s)
  have acc_s: "create_acceleration_from_prev_column h c s = acceleration_block s"
    by (rule acceleration_try [OF speed_has_column [OF Inr]])
  show ?thesis
  proof (cases "acceleration_block s")
    case (Inl e)
    with Inr acc_s show ?thesis
      by (simp add: jerk_except [OF assms(3)] acceleration_except [OF assms(2)])
  next
    case a: (Inr a)
    have "''Acceleration_prev_to_curr'' \<in> set (columns a)"
      using acceleration_block_Inr(2) [OF a] .
    then have "create_jerk_from_prev_column h c a = jerk_block a"
      by (rule jerk_try)
    with Inr acc_s a show ?thesis
      by (simp add: jerk_except [OF assms(3)] acceleration_except [OF assms(2)])
  qed
qed

lemma set_first_occurrences: "set (first_occurrences xs) = set xs"
  by (simp add: first_occurrences_def)

lemma consecutive_distance_helper_total:
  "\<exists>out. consecutive_distance_helper chunk = Inr out \<and>
         ''Distance_prev_to_curr'' \<in> set (columns out)"
proof -
  have "\<exists>out. consecutive_distance_helper chunk = Inr out"
    unfolding consecutive_distance_helper_def
    by (rule set_column_total) (simp split: list.split)
  then obtain out where out: "consecutive_distance_helper chunk = Inr out" ..
  then have "''Distance_prev_to_curr'' \<in> set (columns out)"
    unfolding consecutive_distance_helper_def by (rule set_column_Inr(3))
  with out show ?thesis by blast
qed

lemma reference_distance_total:
  assumes "0 < length (rows df)" "length (rows df) \<le> 75001"
  shows "\<exists>out. create_distance_between_consecutive_column consecutive_distance_helper Inr df =
           Inr out \<and> ''Distance_prev_to_curr'' \<in> set (columns out)"
proof -
  obtain x where x: "consecutive_distance_helper df = Inr x"
    and cx: "''Distance_prev_to_curr'' \<in> set (columns x)"
    using consecutive_distance_helper_total by blast
  have "chunks df = [df]"
    using assms by (rule chunks_single)
  then show ?thesis
    using x cx
    by (simp add: create_distance_between_consecutive_column_def Pool_def pd_concat_def
        set_first_occurrences)
qed

lemma reference_jerk_total:
  assumes "0 < length (rows df)" "length (rows df) \<le> 75001"
    and "''Distance_prev_to_curr'' \<notin> set (columns df)"
    and "''Speed_prev_to_curr'' \<notin> set (columns df)"
    and "''Acceleration_prev_to_curr'' \<notin> set (columns df)"
  shows "\<exists>out. create_jerk_from_prev_column consecutive_distance_helper Inr df = Inr out \<and>
           ''jerk_prev_to_curr'' \<in> set (columns out)"
proof -
  let ?h = consecutive_distance_helper
  let ?c = "Inr :: worker"
  obtain d where d: "create_distance_between_consecutive_column ?h ?c df = Inr d"
    and cd: "''Distance_prev_to_curr'' \<in> set (columns d)"
    using reference_distance_total [OF assms(1,2)] by blast
  obtain s where s: "speed_block d = Inr s"
    using speed_block_total [OF cd] by blast
  have "speed_block df = Inl (KeyError ''Distance_prev_to_curr'')"
    using assms(3) by (simp add: speed_block_def get_column_def)
  then have sp: "create_speed_from_prev_column ?h ?c df = Inr s"
    using d s by (simp add: create_speed_from_prev_column_def)
  obtain a where a: "acceleration_block s = Inr a"
    using acceleration_block_total [OF speed_block_Inr(2) [OF s]] by blast
  have ac: "create_acceleration_from_prev_column ?h ?c df = Inr a"
    using sp a by (simp add: acceleration_except [OF assms(4)])
  obtain j where j: "jerk_block a = Inr j"
    using jerk_block_total [OF acceleration_block_Inr(2) [OF a]] by blast
  have "create_jerk_from_prev_column ?h ?c df = Inr j"
    using ac j by (simp add: jerk_except [OF assms(5)])
  with jerk_block_Inr(2) [OF j] show ?thesis by blast
qed

theorem jerk_fallback_chain_witness:
  "''Distance_prev_to_curr'' \<notin> set (columns two_point_table) \<and>
   ''Speed_prev_to_curr'' \<notin> set (columns two_point_table) \<and>
   ''Acceleration_prev_to_curr'' \<notin> set (columns two_point_table) \<and>
   (\<exists>out. create_jerk_from_prev_column consecutive_distance_helper Inr two_point_table = Inr out \<and>
          ''jerk_prev_to_curr'' \<in> set (columns out)) \<and>
   create_jerk_from_prev_column consecutive_distance_helper Inr two_point_table =
     (case create_speed_from_prev_column consecutive_distance_helper Inr two_point_table of
        Inl e \<Rightarrow> Inl e
      | Inr s \<Rightarrow>
          (case create_acceleration_from_prev_column consecutive_distance_helper Inr s of
             Inl e \<Rightarrow> Inl e
           | Inr a \<Rightarrow> create_jerk_from_prev_column consecutive_distance_helper Inr a))"
proof -
  have c: "columns two_point_table = []" and r: "length (rows two_point_table) = 2"
    by (simp_all add: two_point_table_def mk_table_def)
  have h1: "''Distance_prev_to_curr'' \<notin> set (columns two_point_table)"
    and h2: "''Speed_prev_to_curr'' \<notin> set (columns two_point_table)"
    and h3: "''Acceleration_prev_to_curr'' \<notin> set (columns two_point_table)"
    by (simp_all add: c)
  have t: "\<exists>out. create_jerk_from_prev_column consecutive_distance_helper Inr two_point_table =
             Inr out \<and> ''jerk_prev_to_curr'' \<in> set (columns out)"
    by (rule reference_jerk_total [OF _ _ h1 h2 h3]) (simp_all add: r)
  from h1 h2 h3 t jerk_fallback_chain [OF h1 h2 h3, of consecutive_distance_helper Inr]
  show ?thesis by (intro conjI)
qed

section \<open>Properties of the end points and the bounding box\<close>

lemma foldl_min_Min: "foldl min (t::int) ts = Min (set (t # ts))"
proof (induction ts arbitrary: t)
  case Nil
  show ?case by simp
next
  case (Cons x xs)
  have "foldl min t (x # xs) = Min (set (min t x # xs))"
    using Cons.IH [of "min t x"] by simp
  also have "\<dots> = Min (set (t # x # xs))"
    by (cases "xs = []") (simp_all add: min.assoc)
  finally show ?case .
qed

lemma foldl_max_Max: "foldl max (t::int) ts = Max (set (t # ts))"
proof (induction ts arbitrary: t)
  case Nil
  show ?case by simp
next
  case (Cons x xs)
  have "foldl max t (x # xs) = Max (set (max t x # xs))"
    using Cons.IH [of "max t x"] by simp
  also have "\<dots> = Max (set (t # x # xs))"
    by (cases "xs = []") (simp_all add: max.assoc)
  finally show ?case .
qed

lemma foldl_min_mem: "foldl min (t::int) ts \<in> set (t # ts)"
  unfolding foldl_min_Min by (rule Min_in) simp_all

lemma foldl_min_le: "x \<in> set (t # ts) \<Longrightarrow> foldl min (t::int) ts \<le> x"
  unfolding foldl_min_Min by (rule Min_le) simp_all

lemma foldl_max_mem: "foldl max (t::int) ts \<in> set (t # ts)"
  unfolding foldl_max_Max by (rule Max_in) simp_all

lemma foldl_max_ge: "x \<in> set (t # ts) \<Longrightarrow> x \<le> foldl max (t::int) ts"
  unfolding foldl_max_Max by (rule Max_ge) simp_all

lemma time_min_Some:
  assumes "ts \<noteq> []"
  shows "\<exists>m. time_min ts = Some m \<and> m \<in> set ts \<and> (\<forall>x\<in>set ts. m \<le> x)"
proof (cases ts)
  case Nil
  with assms show ?thesis by simp
next
  case (Cons t rest)
  then show ?thesis
    using foldl_min_mem [of t rest] foldl_min_le [of _ t rest]
    by (simp add: time_min_def)
qed

lemma time_max_Some:
  assumes "ts \<noteq> []"
  shows "\<exists>m. time_max ts = Some m \<and> m \<in> set ts \<and> (\<forall>x\<in>set ts. x \<le> m)"
proof (cases ts)
  case Nil
  with assms show ?thesis by simp
next
  case (Cons t rest)
  then show ?thesis
    using foldl_max_mem [of t rest] foldl_max_ge [of _ t rest]
    by (simp add: time_max_def)
qed

text \<open>The rows selected at an extreme timestamp: none of no rows, some otherwise.\<close>

lemma first_at_extreme:
  assumes "filt \<noteq> []"
    and "\<exists>m. ext (map DateTime filt) = Some m \<and> m \<in> set (map DateTime filt) \<and>
           (\<forall>x\<in>set (map DateTime filt). ord m x)"
  shows "\<exists>r rest. filter (\<lambda>r. Some (DateTime r) = ext (map DateTime filt)) filt = r # rest \<and>
           r \<in> set filt \<and> (\<forall>q\<in>set filt. ord (DateTime r) (DateTime q))"
proof -
  from assms(2) obtain m where m: "ext (map DateTime filt) = Some m"
    and mem: "m \<in> set (map DateTime filt)"
    and le: "\<forall>x\<in>set (map DateTime filt). ord m x" by blast
  let ?sel = "filter (\<lambda>r. Some (DateTime r) = ext (map DateTime filt)) filt"
  from mem obtain p where "p \<in> set filt" "DateTime p = m" by auto
  then have "p \<in> set ?sel" by (simp add: m)
  then obtain r rest where sel: "?sel = r # rest" by (cases ?sel) auto
  then have "r \<in> set ?sel" by simp
  then have "r \<in> set filt" and "DateTime r = m" by (simp_all add: m)
  with le sel show ?thesis by auto
qed

lemma start_location_present:
  assumes "t \<in> traj_id ` set (rows df)"
  shows "\<exists>r\<in>set (rows df). traj_id r = t \<and>
           (\<forall>q\<in>set (rows df). traj_id q = t \<longrightarrow> DateTime r \<le> DateTime q) \<and>
           get_start_location df (Some t) = Inr (Coordinates (lat r) (lon r))"
proof -
  let ?filt = "filter (\<lambda>r. traj_id r = t) (rows df)"
  from assms have ne: "?filt \<noteq> []" by (auto simp add: filter_empty_conv)
  then have "map DateTime ?filt \<noteq> []" by simp
  from first_at_extreme [where ext = time_min and ord = "(\<le>)", OF ne time_min_Some [OF this]]
  obtain r rest where sel: "filter (\<lambda>r. Some (DateTime r) = time_min (map DateTime ?filt)) ?filt = r # rest"
    and r: "r \<in> set ?filt" and le: "\<forall>q\<in>set ?filt. DateTime r \<le> DateTime q" by blast
  have "get_start_location df (Some t) = Inr (Coordinates (lat r) (lon r))"
    using sel by (simp add: get_start_location_def Let_def first_coordinates_def)
  with r le show ?thesis by auto
qed

lemma end_location_present:
  assumes "t \<in> traj_id ` set (rows df)"
  shows "\<exists>r\<in>set (rows df). traj_id r = t \<and>
           (\<forall>q\<in>set (rows df). traj_id q = t \<longrightarrow> DateTime q \<le> DateTime r) \<and>
           get_end_location df (Some t) = Inr (Coordinates (lat r) (lon r))"
proof -
  let ?filt = "filter (\<lambda>r. traj_id r = t) (rows df)"
  from assms have ne: "?filt \<noteq> []" by (auto simp add: filter_empty_conv)
  then have "map DateTime ?filt \<noteq> []" by simp
  from first_at_extreme [where ext = time_max and ord = "\<lambda>m x. x \<le> m", OF ne time_max_Some [OF this]]
  obtain r rest where sel: "filter (\<lambda>r. Some (DateTime r) = time_max (map DateTime ?filt)) ?filt = r # rest"
    and r: "r \<in> set ?filt" and le: "\<forall>q\<in>set ?filt. DateTime q \<le> DateTime r" by blast
  have "get_end_location df (Some t) = Inr (Coordinates (lat r) (lon r))"
    using sel by (simp add: get_end_location_def Let_def first_coordinates_def)
  with r le show ?thesis by auto
qed

lemma location_absent:
  assumes "t \<notin> traj_id ` set (rows df)"
  shows "get_start_location df (Some t) =
           Inr (Message (''Trajectory ID: '' @ t @
             '' does not exist in the dataset. Please try again!''))"
    and "get_end_location df (Some t) =
           Inr (Message (''Trajectory ID: '' @ t @
             '' does not exist in the dataset. Please try again!''))"
proof -
  from assms have "filter (\<lambda>r. traj_id r = t) (rows df) = []"
    by (auto simp add: filter_empty_conv)
  then show "get_start_location df (Some t) =
           Inr (Message (''Trajectory ID: '' @ t @
             '' does not exist in the dataset. Please try again!''))"
    and "get_end_location df (Some t) =
           Inr (Message (''Trajectory ID: '' @ t @
             '' does not exist in the dataset. Please try again!''))"
    by (simp_all add: get_start_location_def get_end_location_def)
qed

text \<open>
  C7. For a trajectory identifier that no record of the table carries,
  \<open>get_start_location\<close> and \<open>get_end_location\<close> return (they do not raise) the
  message "Trajectory ID: <identifier> does not exist in the dataset. Please try again!";
  for an identifier that some record carries they return the (latitude, longitude) pair
  of a record of that trajectory, one with its earliest, respectively latest, timestamp.
\<close>

theorem location_of_trajectory:
  "(t \<notin> traj_id ` set (rows df) \<longrightarrow>
      get_start_location df (Some t) =
        Inr (Message (''Trajectory ID: '' @ t @
          '' does not exist in the dataset. Please try again!'')) \<and>
      get_end_location df (Some t) =
        Inr (Message (''Trajectory ID: '' @ t @
          '' does not exist in the dataset. Please try again!''))) \<and>
   (t \<in> traj_id ` set (rows df) \<longrightarrow>
      (\<exists>r\<in>set (rows df). traj_id r = t \<and>
         (\<forall>q\<in>set (rows df). traj_id q = t \<longrightarrow> DateTime r \<le> DateTime q) \<and>
         get_start_location df (Some t) = Inr (Coordinates (lat r) (lon r))) \<and>
      (\<exists>r\<in>set (rows df). traj_id r = t \<and>
         (\<forall>q\<in>set (rows df). traj_id q = t \<longrightarrow> DateTime q \<le> DateTime r) \<and>
         get_end_location df (Some t) = Inr (Coordinates (lat r) (lon r))))"
  using location_absent [of t df] start_location_present [of t df]
    end_location_present [of t df]
  by blast

lemma traj_ids_kinematic_table: "traj_id ` set (rows kinematic_table) = {''a'', ''b''}"
  by (simp add: kinematic_table_def) 

theorem location_of_trajectory_witness:
  "''c'' \<notin> traj_id ` set (rows kinematic_table) \<and>
   get_start_location kinematic_table (Some ''c'') =
     Inr (Message ''Trajectory ID: c does not exist in the dataset. Please try again!'') \<and>
   get_end_location kinematic_table (Some ''c'') =
     Inr (Message ''Trajectory ID: c does not exist in the dataset. Please try again!'') \<and>
   ''a'' \<in> traj_id ` set (rows kinematic_table) \<and>
   (\<exists>r. r \<in> set (rows kinematic_table) \<and>
        get_start_location kinematic_table (Some ''a'') = Inr (Coordinates (lat r) (lon r))) \<and>
   get_start_location kinematic_table (Some ''a'') = Inr (Coordinates (Fin 0) (Fin 0)) \<and>
   get_end_location kinematic_table (Some ''a'') = Inr (Coordinates (Fin 0) (Fin 1))"
proof -
  have c: "''c'' \<notin> traj_id ` set (rows kinematic_table)"
    and a: "''a'' \<in> traj_id ` set (rows kinematic_table)"
    by (simp_all add: traj_ids_kinematic_table)
  have s: "get_start_location kinematic_table (Some ''a'') = Inr (Coordinates (Fin 0) (Fin 0))"
    by (simp add: get_start_location_def kinematic_table_def time_min_def
        first_coordinates_def)
  have e: "get_end_location kinematic_table (Some ''a'') = Inr (Coordinates (Fin 0) (Fin 1))"
    by (simp add: get_end_location_def kinematic_table_def time_max_def
        first_coordinates_def)
  have m: "get_start_location kinematic_table (Some ''c'') =
     Inr (Message ''Trajectory ID: c does not exist in the dataset. Please try again!'')"
    "get_end_location kinematic_table (Some ''c'') =
     Inr (Message ''Trajectory ID: c does not exist in the dataset. Please try again!'')"
    using location_of_trajectory [of "''c''" kinematic_table] c by simp_all
  have p: "\<exists>r. r \<in> set (rows kinematic_table) \<and>
        get_start_location kinematic_table (Some ''a'') = Inr (Coordinates (lat r) (lon r))"
    using location_of_trajectory [of "''a''" kinematic_table] a by blast
  from c m a p s e show ?thesis by (intro conjI)
qed




lemma fle_antisym: "fle x y \<Longrightarrow> fle y x \<Longrightarrow> x = y"
  by (cases x; cases y) simp_all












section \<open>Properties of the pivot\<close>

lemma mk_stats_row_sel:
  "stats_traj_id (mk_stats_row tid feat a b lab) = tid"
  "Columns (mk_stats_row tid feat a b lab) = feat"
  "cells (mk_stats_row tid feat a b lab) c =
     (if c = ''mean'' then Num (Fin a) else if c = ''max'' then Num (Fin b) else Txt lab)"
  by (simp_all add: mk_stats_row_def)

lemma numeric_columns_sample: "numeric_columns (kinematic_stats ''Species'') = [''mean'', ''max'']"
  by (simp add: numeric_columns_def kinematic_stats_def mk_stats_row_sel is_num_def)

lemma kinematic_stats_sel:
  "stats_columns (kinematic_stats lab) = [''mean'', ''max'', lab]"
  "filter (\<lambda>r. stats_traj_id r = ''t1'') (stats_rows (kinematic_stats lab)) =
     [mk_stats_row ''t1'' ''Distance'' 1 2 ''cat'', mk_stats_row ''t1'' ''Speed'' 3 4 ''cat'']"
  "filter (\<lambda>r. stats_traj_id r = ''t2'') (stats_rows (kinematic_stats lab)) =
     [mk_stats_row ''t2'' ''Distance'' 5 6 ''dog'', mk_stats_row ''t2'' ''Speed'' 7 8 ''dog'']"
  by (simp_all add: kinematic_stats_def mk_stats_row_sel)

lemma pivot_table_sample:
  "pivot_table [''mean'', ''max'']
     [mk_stats_row tid ''Distance'' a b lab, mk_stats_row tid ''Speed'' c d lab] =
   [(''max_Distance'', Num (Fin b)), (''max_Speed'', Num (Fin d)),
    (''mean_Distance'', Num (Fin a)), (''mean_Speed'', Num (Fin c))]"
  by (simp add: pivot_table_def mk_stats_row_sel num_of_def group_mean_def
      present_def strip_bar_def)

lemma pivot_trajectory_sample:
  "pivot_trajectory (kinematic_stats ''Species'') ''Species'' ''t1'' =
     Inr \<lparr>wide_columns = [''max_Distance'', ''max_Speed'', ''mean_Distance'', ''mean_Speed'',
                            ''Species''],
          wide_rows = [\<lparr>wide_traj_id = ''t1'',
                        wide_cells = [(''Species'', Txt ''cat''),
                          (''max_Distance'', Num (Fin 2)), (''max_Speed'', Num (Fin 4)),
                          (''mean_Distance'', Num (Fin 1)), (''mean_Speed'', Num (Fin 3))]\<rparr>]\<rparr>"
  "pivot_trajectory (kinematic_stats ''Species'') ''Species'' ''t2'' =
     Inr \<lparr>wide_columns = [''max_Distance'', ''max_Speed'', ''mean_Distance'', ''mean_Speed'',
                            ''Species''],
          wide_rows = [\<lparr>wide_traj_id = ''t2'',
                        wide_cells = [(''Species'', Txt ''dog''),
                          (''max_Distance'', Num (Fin 6)), (''max_Speed'', Num (Fin 8)),
                          (''mean_Distance'', Num (Fin 5)), (''mean_Speed'', Num (Fin 7))]\<rparr>]\<rparr>"
  by (simp_all add: pivot_trajectory_def numeric_columns_sample pivot_table_sample
      mk_stats_row_sel kinematic_stats_sel)

lemma ids_sample:
  "first_occurrences (map stats_traj_id (stats_rows (kinematic_stats lab))) = [''t1'', ''t2'']"
  by (simp add: first_occurrences_def kinematic_stats_def mk_stats_row_sel)


lemma select_columns_Inr:
  "select_columns to_return cols = Inr r \<Longrightarrow> wide_columns r = cols"
  by (auto simp add: select_columns_def split: list.splits)

lemma select_columns_present:
  assumes "set cols \<subseteq> set (wide_columns to_return)"
  shows "\<exists>r. select_columns to_return cols = Inr r \<and> wide_columns r = cols \<and>
           map wide_traj_id (wide_rows r) = map wide_traj_id (wide_rows to_return) \<and>
           (\<forall>i<length (wide_rows to_return). \<forall>c\<in>set cols.
              lookup_cell (wide_rows r ! i) c = lookup_cell (wide_rows to_return ! i) c)"
proof -
  have "filter (\<lambda>c. c \<notin> set (wide_columns to_return)) cols = []"
    using assms by (auto simp add: filter_empty_conv)
  moreover have "map_of (map (\<lambda>c. (c, f c)) cols) c = Some (f c)" if "c \<in> set cols"
    for c and f :: "string \<Rightarrow> cell"
    using that by (induction cols) auto
  ultimately show ?thesis
    by (simp add: select_columns_def lookup_cell_def comp_def)
qed

text \<open>What a call leaves in \<open>const.ORDERED_COLS\<close>.\<close>

lemma pivot_stats_df_returns:
  assumes "pivot_stats_df ORDERED_COLS dataframe target_col_name = (Inr r, after)"
  shows "wide_columns r = ORDERED_COLS @ [target_col_name]"
    and "after = ORDERED_COLS @ [target_col_name]"
  using assms
  by (auto simp add: pivot_stats_df_def Let_def select_columns_Inr
      split: sum.splits)

lemma to_return_sample:
  "final_chunks (kinematic_stats ''Species'') ''Species'' [''t1'', ''t2''] = Inr chunks_of_ids \<Longrightarrow>
   wide_concat chunks_of_ids = Inr to_return \<Longrightarrow>
   wide_columns to_return =
     [''max_Distance'', ''max_Speed'', ''mean_Distance'', ''mean_Speed'', ''Species'']"
  by (auto simp add: pivot_trajectory_sample wide_concat_def first_occurrences_def)

lemma pivot_stats_df_sample:
  assumes "set oc \<subseteq> set sample_ordered_cols \<union> {''Species''}"
  shows "\<exists>r. pivot_stats_df oc (kinematic_stats ''Species'') ''Species'' =
           (Inr r, oc @ [''Species'']) \<and> wide_columns r = oc @ [''Species'']"
proof -
  obtain cs where cs: "final_chunks (kinematic_stats ''Species'') ''Species'' [''t1'', ''t2''] = Inr cs"
    by (simp add: pivot_trajectory_sample)
  then obtain tr where tr: "wide_concat cs = Inr tr"
    by (auto simp add: pivot_trajectory_sample wide_concat_def)
  have "wide_columns tr =
     [''max_Distance'', ''max_Speed'', ''mean_Distance'', ''mean_Speed'', ''Species'']"
    using cs tr by (rule to_return_sample)
  then have "set sample_ordered_cols \<union> {''Species''} \<subseteq> set (wide_columns tr)"
    by (simp add: sample_ordered_cols_def)
  with assms have "set (oc @ [''Species'']) \<subseteq> set (wide_columns tr)"
    by (simp only: set_append list.set) blast
  from select_columns_present [OF this]
  obtain r where "select_columns tr (oc @ [''Species'']) = Inr r"
    and "wide_columns r = oc @ [''Species'']" by blast
  then show ?thesis
    using cs tr by (simp add: pivot_stats_df_def ids_sample)
qed

text \<open>
  C2. Two calls of \<open>pivot_stats_df\<close> in a row on the same statistics table with the
  target \<open>Species\<close>: the first returns the canonical columns followed by
  \<open>Species\<close> and leaves \<open>Species\<close> appended to \<open>const.ORDERED_COLS\<close>; the
  second, starting from that list, returns the canonical columns followed by
  \<open>Species\<close> twice. The state a call leaves changes the columns of the next.
\<close>

theorem second_call_repeats_target:
  "\<exists>first second.
     pivot_stats_df sample_ordered_cols (kinematic_stats ''Species'') ''Species'' =
       (Inr first, sample_ordered_cols @ [''Species'']) \<and>
     wide_columns first = sample_ordered_cols @ [''Species''] \<and>
     pivot_stats_df (sample_ordered_cols @ [''Species'']) (kinematic_stats ''Species'') ''Species'' =
       (Inr second, sample_ordered_cols @ [''Species'', ''Species'']) \<and>
     wide_columns second = sample_ordered_cols @ [''Species'', ''Species''] \<and>
     wide_columns second \<noteq> wide_columns first"
proof -
  obtain first where f: "pivot_stats_df sample_ordered_cols (kinematic_stats ''Species'') ''Species'' =
       (Inr first, sample_ordered_cols @ [''Species''])"
    and fc: "wide_columns first = sample_ordered_cols @ [''Species'']"
    using pivot_stats_df_sample [of sample_ordered_cols] by auto
  obtain second where s: "pivot_stats_df (sample_ordered_cols @ [''Species''])
         (kinematic_stats ''Species'') ''Species'' =
       (Inr second, (sample_ordered_cols @ [''Species'']) @ [''Species''])"
    and sc: "wide_columns second = (sample_ordered_cols @ [''Species'']) @ [''Species'']"
    using pivot_stats_df_sample [of "sample_ordered_cols @ [''Species'']"] by auto
  have "wide_columns second \<noteq> wide_columns first"
    unfolding fc sc by simp
  with f fc s sc show ?thesis by auto
qed

lemma pivot_trajectory_no_Species:
  assumes "''Species'' \<notin> set (stats_columns dataframe)"
    and "target_col_name \<in> set (stats_columns dataframe)"
    and "''traj_id'' \<notin> set (stats_columns dataframe)"
    and "''Columns'' \<notin> set (stats_columns dataframe)"
    and "val \<in> stats_traj_id ` set (stats_rows dataframe)"
  shows "pivot_trajectory dataframe target_col_name val = Inl (KeyError ''Species'')"
proof -
  from assms(5) have "filter (\<lambda>r. stats_traj_id r = val) (stats_rows dataframe) \<noteq> []"
    by (auto simp add: filter_empty_conv)
  then obtain first rest where
    "filter (\<lambda>r. stats_traj_id r = val) (stats_rows dataframe) = first # rest"
    by (cases "filter (\<lambda>r. stats_traj_id r = val) (stats_rows dataframe)") auto
  then show ?thesis
    using assms(1-4) by (simp add: pivot_trajectory_def)
qed

text \<open>
  C6. On a statistics table whose label column is named \<open>Label\<close>, called with the
  target column name \<open>Label\<close>, \<open>pivot_stats_df\<close> raises \<open>KeyError\<close> for
  \<open>Species\<close>, the column name it drops whatever the target is called; no pivoted
  table is returned and the label is not re-attached.
\<close>

theorem other_target_name_raises:
  "pivot_stats_df ORDERED_COLS (kinematic_stats ''Label'') ''Label'' =
     (Inl (KeyError ''Species''), ORDERED_COLS)"
proof -
  have "pivot_trajectory (kinematic_stats ''Label'') ''Label'' ''t1'' = Inl (KeyError ''Species'')"
    by (rule pivot_trajectory_no_Species)
      (simp_all add: kinematic_stats_def mk_stats_row_sel)
  then show ?thesis
    by (simp add: pivot_stats_df_def ids_sample)
qed

text \<open>With the target \<open>Species\<close> the label of each trajectory comes back as the last column.\<close>

lemma species_target_attached:
  "\<exists>r. pivot_stats_df sample_ordered_cols (kinematic_stats ''Species'') ''Species'' =
         (Inr r, sample_ordered_cols @ [''Species'']) \<and>
       last (wide_columns r) = ''Species'' \<and>
       map (\<lambda>row. (wide_traj_id row, lookup_cell row ''Species'')) (wide_rows r) =
         [(''t1'', Txt ''cat''), (''t2'', Txt ''dog'')]"
  by (simp add: pivot_stats_df_def ids_sample pivot_trajectory_sample)
    (simp add: wide_concat_def first_occurrences_def select_columns_def
      sample_ordered_cols_def lookup_cell_def Let_def)

end
